theory Spec2Isabelle
  imports Main
begin

section \<open>Python strings\<close>

text \<open>
  A Python \<^verbatim>\<open>str\<close> is a sequence of Unicode code points, so it is modelled as a list of
  natural numbers. The patterns of \<^verbatim>\<open>hr_agent.py\<close> mention ASCII, eight accented Latin-1
  letters and the en dash U+2013. The table of decimal digits (\<^verbatim>\<open>\d\<close>, and the digits that
  \<^verbatim>\<open>int\<close> converts) and the table of whitespace are complete: the decimal digits of
  Unicode 14.0, the version of CPython 3.11, are 66 runs of ten code points with the
  values 0 to 9, and \<open>nd_zeros\<close> lists the first code point of each run. The tables of
  \<^verbatim>\<open>str.lower\<close>, \<^verbatim>\<open>str.upper\<close> and \<^verbatim>\<open>\w\<close> are those of Python 3 for the code points U+0000
  to U+00FF; a code point above U+00FF that is not a decimal digit is treated as a caseless
  symbol that is not a word character.
\<close>

type_synonym pystr = "nat list"

definition ustr :: "string \<Rightarrow> pystr" where
  "ustr s = map of_char s"

definition nd_zeros :: "nat list" where
  "nd_zeros =
    [48, 1632, 1776, 1984, 2406, 2534, 2662, 2790, 2918, 3046, 3174, 3302, 3430, 3558, 3664,
     3792, 3872, 4160, 4240, 6112, 6160, 6470, 6608, 6784, 6800, 6992, 7088, 7232, 7248, 42528,
     43216, 43264, 43472, 43504, 43600, 44016, 65296, 66720, 68912, 69734, 69872, 69942, 70096,
     70384, 70736, 70864, 71248, 71360, 71472, 71904, 72016, 72784, 73040, 73120, 92768, 92864,
     93008, 120782, 120792, 120802, 120812, 120822, 123200, 123632, 125264, 130032]"

definition digit_zero :: "nat \<Rightarrow> nat option" where
  "digit_zero c = find (\<lambda>z. z \<le> c \<and> c < z + 10) nd_zeros"

definition is_digit :: "nat \<Rightarrow> bool" where
  "is_digit c = (digit_zero c \<noteq> None)"

definition digit_val :: "nat \<Rightarrow> nat" where
  "digit_val c = (case digit_zero c of Some z \<Rightarrow> c - z | None \<Rightarrow> 0)"

definition is_space :: "nat \<Rightarrow> bool" where
  "is_space c =
     ((9 \<le> c \<and> c \<le> 13) \<or> (28 \<le> c \<and> c \<le> 32) \<or> c = 133 \<or> c = 160 \<or> c = 5760 \<or>
      (8192 \<le> c \<and> c \<le> 8202) \<or> c = 8232 \<or> c = 8233 \<or> c = 8239 \<or> c = 8287 \<or> c = 12288)"

definition is_word :: "nat \<Rightarrow> bool" where
  "is_word c =
     (is_digit c \<or> (65 \<le> c \<and> c \<le> 90) \<or> c = 95 \<or> (97 \<le> c \<and> c \<le> 122) \<or>
      c = 170 \<or> c = 178 \<or> c = 179 \<or> c = 181 \<or> c = 185 \<or> c = 186 \<or>
      (188 \<le> c \<and> c \<le> 190) \<or> (192 \<le> c \<and> c \<le> 214) \<or> (216 \<le> c \<and> c \<le> 246) \<or>
      (248 \<le> c \<and> c \<le> 255))"

definition is_cased :: "nat \<Rightarrow> bool" where
  "is_cased c =
     ((65 \<le> c \<and> c \<le> 90) \<or> (97 \<le> c \<and> c \<le> 122) \<or> c = 170 \<or> c = 181 \<or> c = 186 \<or>
      (192 \<le> c \<and> c \<le> 214) \<or> (216 \<le> c \<and> c \<le> 246) \<or> (248 \<le> c \<and> c \<le> 255))"

definition cp_lower :: "nat \<Rightarrow> nat" where
  "cp_lower c =
     (if (65 \<le> c \<and> c \<le> 90) \<or> (192 \<le> c \<and> c \<le> 214) \<or> (216 \<le> c \<and> c \<le> 222)
      then c + 32 else c)"

definition cp_upper :: "nat \<Rightarrow> pystr" where
  "cp_upper c =
     (if (97 \<le> c \<and> c \<le> 122) \<or> (224 \<le> c \<and> c \<le> 246) \<or> (248 \<le> c \<and> c \<le> 254)
      then [c - 32]
      else if c = 181 then [924]
      else if c = 223 then [83, 83]
      else if c = 255 then [376]
      else [c])"

definition cp_title :: "nat \<Rightarrow> pystr" where
  "cp_title c = (if c = 223 then [83, 115] else cp_upper c)"

definition py_lower :: "pystr \<Rightarrow> pystr" where
  "py_lower s = map cp_lower s"

definition py_upper :: "pystr \<Rightarrow> pystr" where
  "py_upper s = concat (map cp_upper s)"

text \<open>\<^verbatim>\<open>str.title\<close>: a cased character is title-cased after an uncased one and lower-cased
  after a cased one.\<close>

fun title_from :: "bool \<Rightarrow> pystr \<Rightarrow> pystr" where
  "title_from prev [] = []"
| "title_from prev (c # cs) =
     (if prev then [cp_lower c] else cp_title c) @ title_from (is_cased c) cs"

definition py_title :: "pystr \<Rightarrow> pystr" where
  "py_title s = title_from False s"

definition py_capitalize :: "pystr \<Rightarrow> pystr" where
  "py_capitalize s = (case s of [] \<Rightarrow> [] | c # cs \<Rightarrow> cp_title c @ py_lower cs)"

definition py_strip :: "pystr \<Rightarrow> pystr" where
  "py_strip s = rev (dropWhile is_space (rev (dropWhile is_space s)))"

primrec startswith :: "pystr \<Rightarrow> pystr \<Rightarrow> bool" where
  "startswith [] p = (p = [])"
| "startswith (c # cs) p = (case p of [] \<Rightarrow> True | d # ds \<Rightarrow> c = d \<and> startswith cs ds)"

text \<open>\<^verbatim>\<open>sub in s\<close> on strings.\<close>

primrec contains :: "pystr \<Rightarrow> pystr \<Rightarrow> bool" where
  "contains [] sub = (sub = [])"
| "contains (c # cs) sub = (startswith (c # cs) sub \<or> contains cs sub)"

text \<open>\<^verbatim>\<open>s[a:b]\<close> for \<open>0 \<le> a \<le> b\<close>.\<close>

definition slice :: "pystr \<Rightarrow> nat \<Rightarrow> nat \<Rightarrow> pystr" where
  "slice s a b = take (b - a) (drop a s)"

primrec join :: "pystr \<Rightarrow> pystr list \<Rightarrow> pystr" where
  "join sep [] = []"
| "join sep (x # xs) = (if xs = [] then x else x @ sep @ join sep xs)"

fun str_nat :: "nat \<Rightarrow> pystr" where
  "str_nat n = (if n < 10 then [48 + n] else str_nat (n div 10) @ [48 + n mod 10])"

declare str_nat.simps [simp del]

definition str_int :: "int \<Rightarrow> pystr" where
  "str_int i = (if i < 0 then 45 # str_nat (nat (- i)) else str_nat (nat i))"

text \<open>The exceptions that the program lets through to its caller.\<close>

datatype error = ValueError | TypeError | AttributeError | UnicodeDecodeError | RecursionError
  | OSError

text \<open>\<^verbatim>\<open>int(s)\<close> on a string of decimal digits; any other string is reported as a
  \<^verbatim>\<open>ValueError\<close>. Python integers are unbounded, but since CPython 3.11 \<^verbatim>\<open>int\<close> raises
  \<^verbatim>\<open>ValueError\<close> for a string of more than \<^verbatim>\<open>sys.int_info.default_max_str_digits\<close>
  digits, which is 4300; leading zeros count.\<close>

definition digits_value :: "pystr \<Rightarrow> nat" where
  "digits_value s = foldl (\<lambda>a d. 10 * a + digit_val d) 0 s"

definition max_str_digits :: nat where
  "max_str_digits = 4300"

definition py_int :: "pystr \<Rightarrow> error + int" where
  "py_int s =
     (if s \<noteq> [] \<and> list_all is_digit s \<and> length s \<le> max_str_digits
      then Inr (int (digits_value s)) else Inl ValueError)"

section \<open>Regular expressions\<close>

text \<open>
  The patterns of \<^verbatim>\<open>hr_agent.py\<close> use literals, character classes, concatenation, ordered
  alternation, greedy \<^verbatim>\<open>*\<close> and \<^verbatim>\<open>+\<close> on a character class, \<^verbatim>\<open>?\<close>, capture groups and
  \<^verbatim>\<open>\b\<close>. The matcher follows the backtracking search of Python's \<^verbatim>\<open>re\<close>: it returns the
  states reachable from a start state in the order in which backtracking tries them.
\<close>

datatype rx =
    Lit pystr
  | Cls "nat \<Rightarrow> bool"
  | Cat rx rx
  | Alt rx rx
  | Star "nat \<Rightarrow> bool"
  | Plus "nat \<Rightarrow> bool"
  | Opt rx
  | Grp nat rx
  | WordB

type_synonym caps = "nat \<Rightarrow> (nat \<times> nat) option"

definition word_at :: "pystr \<Rightarrow> nat \<Rightarrow> bool" where
  "word_at t i = (i < length t \<and> is_word (t ! i))"

definition is_boundary :: "pystr \<Rightarrow> nat \<Rightarrow> bool" where
  "is_boundary t i = ((0 < i \<and> word_at t (i - 1)) \<noteq> word_at t i)"

fun rx_m :: "pystr \<Rightarrow> rx \<Rightarrow> nat \<times> caps \<Rightarrow> (nat \<times> caps) list" where
  "rx_m t (Lit s) (i, c) = (if startswith (drop i t) s then [(i + length s, c)] else [])"
| "rx_m t (Cls p) (i, c) = (if i < length t \<and> p (t ! i) then [(Suc i, c)] else [])"
| "rx_m t (Cat a b) st = concat (map (rx_m t b) (rx_m t a st))"
| "rx_m t (Alt a b) st = rx_m t a st @ rx_m t b st"
| "rx_m t (Star p) (i, c) =
     map (\<lambda>k. (i + k, c)) (rev [0 ..< Suc (length (takeWhile p (drop i t)))])"
| "rx_m t (Plus p) (i, c) =
     map (\<lambda>k. (i + k, c)) (rev [1 ..< Suc (length (takeWhile p (drop i t)))])"
| "rx_m t (Opt a) st = rx_m t a st @ [st]"
| "rx_m t (Grp n a) (i, c) = map (\<lambda>(j, c'). (j, c'(n \<mapsto> (i, j)))) (rx_m t a (i, c))"
| "rx_m t WordB (i, c) = (if is_boundary t i then [(i, c)] else [])"

record rmatch =
  m_start :: nat
  m_end :: nat
  m_caps :: caps

text \<open>The first match that starts at one of the given positions, tried in order.\<close>

primrec search_at :: "pystr \<Rightarrow> rx \<Rightarrow> nat list \<Rightarrow> rmatch option" where
  "search_at t r [] = None"
| "search_at t r (s # ss) =
     (case rx_m t r (s, Map.empty) of
        [] \<Rightarrow> search_at t r ss
      | (e, c) # _ \<Rightarrow> Some \<lparr>m_start = s, m_end = e, m_caps = c\<rparr>)"

text \<open>\<^verbatim>\<open>re.search(r, t)\<close>\<close>

definition re_search :: "rx \<Rightarrow> pystr \<Rightarrow> rmatch option" where
  "re_search r t = search_at t r [0 ..< Suc (length t)]"

text \<open>\<^verbatim>\<open>m.group(0)\<close> and \<^verbatim>\<open>m.group(n)\<close>; a group that took no part in the match is
  \<^verbatim>\<open>None\<close>.\<close>

definition group0 :: "pystr \<Rightarrow> rmatch \<Rightarrow> pystr" where
  "group0 t m = slice t (m_start m) (m_end m)"

definition group :: "pystr \<Rightarrow> rmatch \<Rightarrow> nat \<Rightarrow> pystr option" where
  "group t m n = (case m_caps m n of None \<Rightarrow> None | Some (a, b) \<Rightarrow> Some (slice t a b))"

text \<open>\<^verbatim>\<open>re.findall(r, t)\<close> for a pattern with one group: the scan visits the start
  positions in order and skips those inside the previous match.\<close>

primrec findall_at :: "pystr \<Rightarrow> rx \<Rightarrow> nat \<Rightarrow> nat list \<Rightarrow> pystr list" where
  "findall_at t r lim [] = []"
| "findall_at t r lim (s # ss) =
     (if s < lim then findall_at t r lim ss
      else case rx_m t r (s, Map.empty) of
        [] \<Rightarrow> findall_at t r lim ss
      | (e, c) # _ \<Rightarrow>
          (case c 1 of None \<Rightarrow> [] | Some (a, b) \<Rightarrow> slice t a b)
            # findall_at t r (if e = s then Suc s else e) ss)"

definition re_findall :: "rx \<Rightarrow> pystr \<Rightarrow> pystr list" where
  "re_findall r t = findall_at t r 0 [0 ..< Suc (length t)]"

fun alts :: "rx \<Rightarrow> rx list \<Rightarrow> rx" where
  "alts r [] = r"
| "alts r (x # xs) = Alt r (alts x xs)"

fun cats :: "rx \<Rightarrow> rx list \<Rightarrow> rx" where
  "cats r [] = r"
| "cats r (x # xs) = Cat r (cats x xs)"

section \<open>The query parser\<close>

record filter =
  role :: "pystr option"
  skills :: "pystr list"
  location :: "pystr option"
  minExp :: "int option"
  maxExp :: "int option"
  availabilityWindowDays :: "int option"

text \<open>\<^verbatim>\<open>(intern|junior|frontend|backend|full[- ]?stack|react\s*ui|trainee)\<close>\<close>

definition role_re :: rx where
  "role_re =
     Grp 1 (alts (Lit (ustr ''intern''))
       [Lit (ustr ''junior''), Lit (ustr ''frontend''), Lit (ustr ''backend''),
        cats (Lit (ustr ''full'')) [Opt (Cls (\<lambda>c. c = 45 \<or> c = 32)), Lit (ustr ''stack'')],
        cats (Lit (ustr ''react'')) [Star is_space, Lit (ustr ''ui'')],
        Lit (ustr ''trainee'')])"

text \<open>The class \<^verbatim>\<open>[a-z\<close>...\<^verbatim>\<open>\-]\<close> of the location pattern: the lower-case ASCII letters,
  the letters U+00E9, U+00E8, U+00EA, U+00EE, U+00EF, U+00E2, U+00E0, U+00E7 and the hyphen.\<close>

definition loc_char :: "nat \<Rightarrow> bool" where
  "loc_char c =
     ((97 \<le> c \<and> c \<le> 122) \<or> c = 233 \<or> c = 232 \<or> c = 234 \<or> c = 238 \<or> c = 239 \<or>
      c = 226 \<or> c = 224 \<or> c = 231 \<or> c = 45)"

text \<open>\<^verbatim>\<open>\bin\s+([a-z\<close>...\<^verbatim>\<open>\-]+)\<close>\<close>

definition loc_re :: rx where
  "loc_re = cats WordB [Lit (ustr ''in''), Plus is_space, Grp 1 (Plus loc_char)]"

definition known_cities :: "pystr list" where
  "known_cities =
     [ustr ''casablanca'', ustr ''rabat'', ustr ''marrakesh'', ustr ''marrakech'',
      ustr ''tangier'', ustr ''fes'', ustr ''agadir'']"

text \<open>\<^verbatim>\<open>(?:years?|y)\<close>\<close>

definition year_unit :: rx where
  "year_unit = Alt (Cat (Lit (ustr ''year'')) (Opt (Lit (ustr ''s'')))) (Lit (ustr ''y''))"

text \<open>\<^verbatim>\<open>(\d+)\s*[-\<close>U+2013\<^verbatim>\<open>]\s*(\d+)\s*(?:years?|y)\<close>\<close>

definition range_re :: rx where
  "range_re =
     cats (Grp 1 (Plus is_digit))
       [Star is_space, Cls (\<lambda>c. c = 45 \<or> c = 8211), Star is_space, Grp 2 (Plus is_digit),
        Star is_space, year_unit]"

text \<open>\<^verbatim>\<open>(\d+)\s*(?:years?|y)\<close>\<close>

definition single_re :: rx where
  "single_re = cats (Grp 1 (Plus is_digit)) [Star is_space, year_unit]"

text \<open>\<^verbatim>\<open>\b(react|javascript|js|typescript|ts|html|css|git|python|flask|sql|django|redux|node|next\.?js|tailwind)\b\<close>\<close>

definition skill_re :: rx where
  "skill_re =
     cats WordB
       [Grp 1 (alts (Lit (ustr ''react''))
          [Lit (ustr ''javascript''), Lit (ustr ''js''), Lit (ustr ''typescript''),
           Lit (ustr ''ts''), Lit (ustr ''html''), Lit (ustr ''css''), Lit (ustr ''git''),
           Lit (ustr ''python''), Lit (ustr ''flask''), Lit (ustr ''sql''),
           Lit (ustr ''django''), Lit (ustr ''redux''), Lit (ustr ''node''),
           cats (Lit (ustr ''next'')) [Opt (Lit (ustr ''.'')), Lit (ustr ''js'')],
           Lit (ustr ''tailwind'')]),
        WordB]"

text \<open>\<^verbatim>\<open>available\s*(?:in)?\s*(\d+)\s*days\<close>\<close>

definition avail_re :: rx where
  "avail_re =
     cats (Lit (ustr ''available''))
       [Star is_space, Opt (Lit (ustr ''in'')), Star is_space, Grp 1 (Plus is_digit),
        Star is_space, Lit (ustr ''days'')]"

text \<open>\<^verbatim>\<open>int(m.group(n))\<close>\<close>

definition int_group :: "pystr \<Rightarrow> rmatch \<Rightarrow> nat \<Rightarrow> error + int" where
  "int_group t m n = (case group t m n of None \<Rightarrow> Inl TypeError | Some g \<Rightarrow> py_int g)"

definition parse_role :: "pystr \<Rightarrow> pystr option" where
  "parse_role t = (case re_search role_re t of None \<Rightarrow> None | Some m \<Rightarrow> Some (group0 t m))"

definition parse_location :: "pystr \<Rightarrow> error + pystr option" where
  "parse_location t =
     (case re_search loc_re t of
        Some m \<Rightarrow>
          (case group t m 1 of
             None \<Rightarrow> Inl AttributeError
           | Some g \<Rightarrow> Inr (Some (py_title (py_strip g))))
      | None \<Rightarrow> Inr (map_option py_title (find (\<lambda>city. contains t city) known_cities)))"

definition parse_experience :: "pystr \<Rightarrow> error + (int option \<times> int option)" where
  "parse_experience t =
     (case re_search range_re t of
        Some m \<Rightarrow>
          (case int_group t m 1 of
             Inl e \<Rightarrow> Inl e
           | Inr a \<Rightarrow>
               (case int_group t m 2 of
                  Inl e \<Rightarrow> Inl e
                | Inr b \<Rightarrow> Inr (Some a, Some b)))
      | None \<Rightarrow>
          (case re_search single_re t of
             Some m \<Rightarrow>
               (case int_group t m 1 of
                  Inl e \<Rightarrow> Inl e
                | Inr v \<Rightarrow> Inr (Some (max 0 (v - 1)), Some v))
           | None \<Rightarrow> Inr (None, None)))"

definition norm :: "(pystr \<times> pystr) list" where
  "norm =
     [(ustr ''javascript'', ustr ''JS''), (ustr ''ts'', ustr ''TypeScript''),
      (ustr ''next.js'', ustr ''Next.js''), (ustr ''nextjs'', ustr ''Next.js'')]"

definition norm_skill :: "pystr \<Rightarrow> pystr" where
  "norm_skill s =
     (let s2 = py_lower s;
          s2 = (case map_of norm s2 of
                  Some v \<Rightarrow> v
                | None \<Rightarrow> if length s2 > 2 then py_capitalize s2 else py_upper s2)
      in if s2 = ustr ''Js'' then ustr ''JS'' else s2)"

definition add_skill :: "pystr list \<Rightarrow> pystr \<Rightarrow> pystr list" where
  "add_skill acc s = (let s2 = norm_skill s in if s2 \<in> set acc then acc else acc @ [s2])"

definition parse_skills :: "pystr \<Rightarrow> pystr list" where
  "parse_skills t = foldl add_skill [] (re_findall skill_re t)"

definition parse_availability :: "pystr \<Rightarrow> error + int option" where
  "parse_availability t =
     (if contains t (ustr ''available this month'') \<or> contains t (ustr ''this month'')
      then Inr (Some 30)
      else
        (case (case re_search avail_re t of
                 Some m \<Rightarrow> map_sum id Some (int_group t m 1)
               | None \<Rightarrow> Inr None) of
           Inl e \<Rightarrow> Inl e
         | Inr w \<Rightarrow> Inr (if contains t (ustr ''available next month'') then Some 45 else w)))"

definition parse_query :: "pystr \<Rightarrow> error + filter" where
  "parse_query text =
     (let t = py_strip (py_lower text);
          r = parse_role t
      in case parse_location t of
           Inl e \<Rightarrow> Inl e
         | Inr loc \<Rightarrow>
             (case parse_experience t of
                Inl e \<Rightarrow> Inl e
              | Inr (mn, mx) \<Rightarrow>
                  (let sk = parse_skills t
                   in case parse_availability t of
                        Inl e \<Rightarrow> Inl e
                      | Inr w \<Rightarrow>
                          Inr \<lparr>role = r, skills = sk, location = loc, minExp = mn,
                               maxExp = mx, availabilityWindowDays = w\<rparr>)))"

section \<open>Calendar dates\<close>

text \<open>
  A \<^verbatim>\<open>datetime.date\<close> is represented by its proleptic Gregorian ordinal
  (\<^verbatim>\<open>date.toordinal()\<close>), so that \<^verbatim>\<open>(a - b).days\<close> is a difference of integers.
  \<^verbatim>\<open>date.fromisoformat\<close> is modelled on the format \<^verbatim>\<open>YYYY-MM-DD\<close>, whose digits are
  ASCII digits; \<open>None\<close> stands for the exception it raises on any other string.
\<close>

definition is_ascii_digit :: "nat \<Rightarrow> bool" where
  "is_ascii_digit c = (48 \<le> c \<and> c \<le> 57)"

definition ascii_value :: "pystr \<Rightarrow> nat" where
  "ascii_value s = foldl (\<lambda>a d. 10 * a + (d - 48)) 0 s"

definition is_leap :: "nat \<Rightarrow> bool" where
  "is_leap y = (y mod 4 = 0 \<and> (y mod 100 \<noteq> 0 \<or> y mod 400 = 0))"

definition days_in_month :: "nat \<Rightarrow> nat \<Rightarrow> nat" where
  "days_in_month y m =
     (if m = 2 then (if is_leap y then 29 else 28)
      else if m = 4 \<or> m = 6 \<or> m = 9 \<or> m = 11 then 30 else 31)"

definition days_before_year :: "nat \<Rightarrow> nat" where
  "days_before_year y = (y - 1) * 365 + (y - 1) div 4 - (y - 1) div 100 + (y - 1) div 400"

definition days_before_month :: "nat \<Rightarrow> nat \<Rightarrow> nat" where
  "days_before_month y m = sum_list (map (days_in_month y) [1 ..< m])"

definition ymd2ord :: "nat \<Rightarrow> nat \<Rightarrow> nat \<Rightarrow> int" where
  "ymd2ord y m d = int (days_before_year y + days_before_month y m + d)"

definition fromisoformat :: "pystr \<Rightarrow> int option" where
  "fromisoformat s =
     (if length s = 10 \<and> s ! 4 = 45 \<and> s ! 7 = 45 \<and> list_all is_ascii_digit (slice s 0 4) \<and>
         list_all is_ascii_digit (slice s 5 7) \<and> list_all is_ascii_digit (slice s 8 10)
      then
        (let y = ascii_value (slice s 0 4);
             m = ascii_value (slice s 5 7);
             d = ascii_value (slice s 8 10)
         in if 1 \<le> y \<and> 1 \<le> m \<and> m \<le> 12 \<and> 1 \<le> d \<and> d \<le> days_in_month y m
            then Some (ymd2ord y m d) else None)
      else None)"

section \<open>Candidates and scoring\<close>

text \<open>
  A candidate is a JSON object. The fields that the program reads with \<^verbatim>\<open>c.get\<close> may be
  absent and are options; \<open>get_skills\<close>, \<open>get_location\<close> and \<open>get_experience\<close> are
  \<^verbatim>\<open>c.get("skills", [])\<close>, \<^verbatim>\<open>c.get("location", "")\<close> and
  \<^verbatim>\<open>c.get("experienceYears", 0)\<close>.
\<close>

record candidate =
  firstName :: pystr
  lastName :: pystr
  cand_location :: "pystr option"
  cand_skills :: "pystr list option"
  experienceYears :: "int option"
  availabilityDate :: "pystr option"
  stage :: "pystr option"

definition get_skills :: "candidate \<Rightarrow> pystr list" where
  "get_skills c = (case cand_skills c of None \<Rightarrow> [] | Some ss \<Rightarrow> ss)"

definition get_location :: "candidate \<Rightarrow> pystr" where
  "get_location c = (case cand_location c of None \<Rightarrow> [] | Some l \<Rightarrow> l)"

definition get_experience :: "candidate \<Rightarrow> int" where
  "get_experience c = (case experienceYears c of None \<Rightarrow> 0 | Some e \<Rightarrow> e)"

text \<open>The four rules of \<^verbatim>\<open>_score_candidate\<close>, each a step on the pair of the running score
  and the reasons collected so far.\<close>

definition rule_skills :: "candidate \<Rightarrow> pystr list \<Rightarrow> int \<times> pystr list \<Rightarrow> int \<times> pystr list" where
  "rule_skills c required_skills sr =
     (if required_skills \<noteq> [] then
        (let matched = filter (\<lambda>s. s \<in> set (get_skills c)) required_skills
         in if matched \<noteq> [] then
              (let pts = 2 * int (length matched)
               in (fst sr + pts,
                   snd sr @ [join (ustr ''+'') matched @ ustr '' match (+'' @ str_int pts @ ustr '')'']))
            else sr)
      else sr)"

definition rule_location :: "candidate \<Rightarrow> pystr option \<Rightarrow> int \<times> pystr list \<Rightarrow> int \<times> pystr list" where
  "rule_location c loc sr =
     (case loc of
        None \<Rightarrow> sr
      | Some l \<Rightarrow>
          if l \<noteq> [] \<and> py_lower l = py_lower (get_location c)
          then (fst sr + 1, snd sr @ [l @ ustr '' (+1)''])
          else sr)"

definition rule_experience ::
  "candidate \<Rightarrow> int option \<Rightarrow> int option \<Rightarrow> int \<times> pystr list \<Rightarrow> int \<times> pystr list" where
  "rule_experience c mn mx sr =
     (case (mn, mx) of
        (Some lo, Some hi) \<Rightarrow>
          (let exp = get_experience c
           in if exp \<ge> lo - 1 \<and> exp \<le> hi + 1
              then (fst sr + 1, snd sr @ [str_int exp @ ustr ''y fits ('' @ [177] @ ustr ''1) (+1)''])
              else sr)
      | _ \<Rightarrow> sr)"

definition rule_availability ::
  "int \<Rightarrow> candidate \<Rightarrow> int option \<Rightarrow> int \<times> pystr list \<Rightarrow> int \<times> pystr list" where
  "rule_availability today c availability_days sr =
     (case availability_days of
        None \<Rightarrow> sr
      | Some w \<Rightarrow>
          if w \<noteq> 0 then
            (case availabilityDate c of
               None \<Rightarrow> sr
             | Some ds \<Rightarrow>
                 (case fromisoformat ds of
                    None \<Rightarrow> sr
                  | Some avail \<Rightarrow>
                      (let delta = avail - today
                       in if 0 \<le> delta \<and> delta \<le> w
                          then (fst sr + 1,
                                snd sr @ [ustr ''available in '' @ str_int delta @ ustr ''d (+1)''])
                          else sr)))
          else sr)"

text \<open>\<^verbatim>\<open>_score_candidate\<close>, with the current date as the first argument.\<close>

definition score_candidate ::
  "int \<Rightarrow> candidate \<Rightarrow> pystr list \<Rightarrow> pystr option \<Rightarrow> int option \<Rightarrow> int option \<Rightarrow> int option
     \<Rightarrow> int \<times> pystr list" where
  "score_candidate today c required_skills loc mn mx availability_days =
     rule_availability today c availability_days
       (rule_experience c mn mx
         (rule_location c loc
           (rule_skills c required_skills (0, []))))"

section \<open>Storage\<close>

text \<open>
  The contents of a file are modelled by what \<^verbatim>\<open>open(path, "r", encoding="utf-8")\<close> followed
  by \<^verbatim>\<open>json.load(f)\<close> does with them:
    \<^item> \<open>JSON v\<close>: \<^verbatim>\<open>json.load\<close> returns the decoded document \<open>v\<close>;
    \<^item> \<open>NotJSON\<close>: the file is UTF-8 text that is not a JSON document, and \<^verbatim>\<open>json.load\<close>
      raises \<^verbatim>\<open>json.JSONDecodeError\<close>;
    \<^item> \<open>Raises e\<close>: opening or reading raises an exception \<open>e\<close> that is not a
      \<^verbatim>\<open>JSONDecodeError\<close>: \<^verbatim>\<open>UnicodeDecodeError\<close> when the bytes of the file are not UTF-8
      (a file that holds the byte \<^verbatim>\<open>0xFF\<close>), \<^verbatim>\<open>RecursionError\<close> when brackets nest deeper than
      the interpreter's recursion limit (a file of 100000 \<^verbatim>\<open>[\<close>), \<^verbatim>\<open>ValueError\<close> when an
      integer literal has more than 4300 digits, \<^verbatim>\<open>OSError\<close> when the path is a directory or
      may not be read.
  A file system maps a path to the contents of the file, if there is one; the state of the
  program's data folder has one such map for each kind of document.
\<close>

datatype 'a contents = NotJSON | Raises error | JSON 'a

type_synonym 'a files = "string \<Rightarrow> 'a contents option"

record job =
  title :: pystr
  job_location :: pystr
  skillsRequired :: "pystr list"
  jdSnippet :: pystr

record store =
  candidate_files :: "candidate list files"
  job_files :: "job list files"
  shortlist_files :: "(pystr \<Rightarrow> int list option) files"

definition CANDIDATES_FP :: string where
  "CANDIDATES_FP = ''data/candidates.json''"

definition JOBS_FP :: string where
  "JOBS_FP = ''data/jobs.json''"

definition SHORTLISTS_FP :: string where
  "SHORTLISTS_FP = ''data/shortlists.json''"

text \<open>\<^verbatim>\<open>_load_json\<close> returns the default when the path does not exist, and catches
  \<^verbatim>\<open>json.JSONDecodeError\<close> only: every other exception reaches the caller.\<close>

definition load_json :: "'a files \<Rightarrow> string \<Rightarrow> 'a \<Rightarrow> error + 'a" where
  "load_json fs path dflt =
     (case fs path of
        None \<Rightarrow> Inr dflt
      | Some NotJSON \<Rightarrow> Inr dflt
      | Some (Raises e) \<Rightarrow> Inl e
      | Some (JSON v) \<Rightarrow> Inr v)"


section \<open>Search\<close>

record scored =
  index :: nat
  cand :: candidate
  score :: int
  reason :: pystr

text \<open>The reason text of a result:
  \<^verbatim>\<open>f"{', '.join(reasons)} \<close>U+2192\<^verbatim>\<open> score {score}" if reasons else f"score {score}"\<close>\<close>

definition reason_text :: "int \<Rightarrow> pystr list \<Rightarrow> pystr" where
  "reason_text sc reasons =
     (if reasons \<noteq> [] then join (ustr '', '') reasons @ [32, 8594] @ ustr '' score '' @ str_int sc
      else ustr ''score '' @ str_int sc)"

definition required_skills_of :: "filter \<Rightarrow> job list \<Rightarrow> pystr list" where
  "required_skills_of filters jobs =
     (let required_skills = skills filters
      in case role filters of
           None \<Rightarrow> required_skills
         | Some r \<Rightarrow>
             if required_skills = [] \<and> r \<noteq> []
             then
               (let key = py_lower r
                in case find (\<lambda>j. contains (py_lower (title j)) key) jobs of
                     Some j \<Rightarrow> skillsRequired j
                   | None \<Rightarrow> required_skills)
             else required_skills)"

definition score_entry :: "int \<Rightarrow> filter \<Rightarrow> pystr list \<Rightarrow> nat \<times> candidate \<Rightarrow> scored list" where
  "score_entry today filters required_skills ic =
     (let sr = score_candidate today (snd ic) required_skills (location filters) (minExp filters)
                 (maxExp filters) (availabilityWindowDays filters)
      in if fst sr > 0
         then [\<lparr>index = fst ic, cand = snd ic, score = fst sr, reason = reason_text (fst sr) (snd sr)\<rparr>]
         else [])"

text \<open>\<^verbatim>\<open>xs[:n]\<close>; a negative \<open>n\<close> counts from the end.\<close>

definition py_take :: "int \<Rightarrow> 'a list \<Rightarrow> 'a list" where
  "py_take n xs = (if 0 \<le> n then take (nat n) xs else take (length xs - nat (- n)) xs)"

text \<open>\<^verbatim>\<open>results.sort(key=lambda x: x["score"], reverse=True)\<close>: a stable sort in which every
  comparison of two scores is reversed.\<close>

definition sort_by_score :: "scored list \<Rightarrow> scored list" where
  "sort_by_score rs = sort_key (\<lambda>r. - score r) rs"

definition search_candidates :: "int \<Rightarrow> store \<Rightarrow> filter \<Rightarrow> int \<Rightarrow> error + scored list" where
  "search_candidates today st filters top_n =
     (case load_json (candidate_files st) CANDIDATES_FP [] of
        Inl e \<Rightarrow> Inl e
      | Inr candidates \<Rightarrow>
          (case load_json (job_files st) JOBS_FP [] of
             Inl e \<Rightarrow> Inl e
           | Inr jobs \<Rightarrow>
               (let required_skills = required_skills_of filters jobs;
                    results = concat (map (score_entry today filters required_skills)
                                        (enumerate 1 candidates))
                in Inr (py_take top_n (sort_by_score results)))))"

section \<open>Shortlists\<close>






section \<open>Email drafts\<close>

record email =
  subject :: pystr
  email_text :: pystr

definition friendly_closing :: pystr where
  "friendly_closing = ustr ''Cheers,'' @ [10] @ ustr ''Soukaina '' @ [8212] @ ustr '' Talent Team''"

definition closings :: "(pystr \<times> pystr) list" where
  "closings =
     [(ustr ''friendly'', friendly_closing),
      (ustr ''formal'', ustr ''Kind regards,'' @ [10] @ ustr ''Soukaina'' @ [10] @ ustr ''Talent Acquisition''),
      (ustr ''concise'', ustr ''Thanks,'' @ [10] @ ustr ''Soukaina'')]"

definition draft_email :: "store \<Rightarrow> candidate list \<Rightarrow> pystr \<Rightarrow> pystr \<Rightarrow> error + email" where
  "draft_email st recipients job_title tone =
     (if recipients = [] then Inr \<lparr>subject = [], email_text = []\<rparr>
      else
        (case load_json (job_files st) JOBS_FP [] of
           Inl e \<Rightarrow> Inl e
         | Inr jobs \<Rightarrow>
        (let job = find (\<lambda>j. py_lower (title j) = py_lower job_title) jobs;
             jd = (case job of Some j \<Rightarrow> jdSnippet j | None \<Rightarrow> []);
             sk = (case job of Some j \<Rightarrow> join (ustr '', '') (skillsRequired j) | None \<Rightarrow> []);
             subj = (case recipients of
                       [r] \<Rightarrow> firstName r @ ustr '', quick chat about a '' @ job_title
                                @ ustr '' opportunity?''
                     | _ \<Rightarrow> ustr ''Quick chat about a '' @ job_title @ ustr '' opportunity?'');
             greeting = (case recipients of
                           [r] \<Rightarrow> ustr ''Hi '' @ firstName r @ ustr '',''
                         | _ \<Rightarrow> ustr ''Hi there,'');
             closing = (case map_of closings tone of
                          Some cl \<Rightarrow> cl
                        | None \<Rightarrow> friendly_closing);
             body_lines =
               [greeting, [],
                ustr ''I'' @ [39] @ ustr ''m reaching out about a '' @ job_title @ ustr '' role in ''
                  @ (case job of Some j \<Rightarrow> job_location j | None \<Rightarrow> ustr ''our team'') @ ustr ''.'']
               @ (if jd \<noteq> [] then [jd] else [])
               @ (if sk \<noteq> [] then [ustr ''Nice-to-have: '' @ sk @ ustr ''.''] else [])
               @ [[],
                  ustr ''Would you be open to a quick chat this week? I'' @ [8217]
                    @ ustr ''d love to learn more about your interests.'',
                  [], closing]
         in Inr \<lparr>subject = subj, email_text = join [10] body_lines\<rparr>)))"

section \<open>The specification's wording of two rules\<close>


text \<open>The availability window as the specification words it: three independent assignments,
  the last one that applies wins.\<close>

definition spec_availability :: "pystr \<Rightarrow> int option" where
  "spec_availability t =
     (let w = None;
          w = (if contains t (ustr ''available this month'') \<or> contains t (ustr ''this month'')
               then Some 30 else w);
          w = (case re_search avail_re t of
                 Some m \<Rightarrow> (case int_group t m 1 of Inr n \<Rightarrow> Some n | Inl e \<Rightarrow> w)
               | None \<Rightarrow> w);
          w = (if contains t (ustr ''available next month'') then Some 45 else w)
      in w)"

text \<open>A candidate with one more skill.\<close>

definition with_skill :: "candidate \<Rightarrow> pystr \<Rightarrow> candidate" where
  "with_skill c s = c\<lparr>cand_skills := Some (get_skills c @ [s])\<rparr>"

section \<open>What a pattern matches\<close>



text \<open>
  \<open>caps_run p t c n\<close>: group \<open>n\<close> is set in \<open>c\<close> and holds a non-empty run of characters of
  the class \<open>p\<close>. \<open>sets_group p n r\<close> is a syntactic condition under which every match of
  \<open>r\<close> leaves group \<open>n\<close> in that state, and \<open>keeps_group p n r\<close> one under which a match of
  \<open>r\<close> preserves it.
\<close>

definition caps_run :: "(nat \<Rightarrow> bool) \<Rightarrow> pystr \<Rightarrow> caps \<Rightarrow> nat \<Rightarrow> bool" where
  "caps_run p t c n =
     (case c n of None \<Rightarrow> False | Some (a, b) \<Rightarrow> slice t a b \<noteq> [] \<and> list_all p (slice t a b))"

fun keeps_group :: "(nat \<Rightarrow> bool) \<Rightarrow> nat \<Rightarrow> rx \<Rightarrow> bool" where
  "keeps_group p n (Cat a b) = (keeps_group p n a \<and> keeps_group p n b)"
| "keeps_group p n (Alt a b) = (keeps_group p n a \<and> keeps_group p n b)"
| "keeps_group p n (Opt a) = keeps_group p n a"
| "keeps_group p n (Grp m a) = (if m = n then a = Plus p else keeps_group p n a)"
| "keeps_group p n (Lit s) = True"
| "keeps_group p n (Cls q) = True"
| "keeps_group p n (Star q) = True"
| "keeps_group p n (Plus q) = True"
| "keeps_group p n WordB = True"

fun sets_group :: "(nat \<Rightarrow> bool) \<Rightarrow> nat \<Rightarrow> rx \<Rightarrow> bool" where
  "sets_group p n (Cat a b) = ((sets_group p n a \<and> keeps_group p n b) \<or> sets_group p n b)"
| "sets_group p n (Alt a b) = (sets_group p n a \<and> sets_group p n b)"
| "sets_group p n (Grp m a) = (if m = n then a = Plus p else sets_group p n a)"
| "sets_group p n (Opt a) = False"
| "sets_group p n (Lit s) = False"
| "sets_group p n (Cls q) = False"
| "sets_group p n (Star q) = False"
| "sets_group p n (Plus q) = False"
| "sets_group p n WordB = False"


text \<open>A text in which no run of decimal digits is longer than \<open>n\<close>.\<close>

definition digit_runs_within :: "nat \<Rightarrow> pystr \<Rightarrow> bool" where
  "digit_runs_within n t =
     (\<forall>a b. list_all is_digit (slice t a b) \<longrightarrow> length (slice t a b) \<le> n)"


section \<open>Auxiliary notions for the scoring and search proofs\<close>

text \<open>The invariant of the running pair of score and reasons.\<close>

definition score_inv :: "int \<times> pystr list \<Rightarrow> bool" where
  "score_inv sr = (0 \<le> fst sr \<and> (fst sr = 0 \<longleftrightarrow> snd sr = []))"


text \<open>The results of a search before they are sorted and cut.\<close>

definition results_of :: "int \<Rightarrow> candidate list \<Rightarrow> job list \<Rightarrow> filter \<Rightarrow> scored list" where
  "results_of today candidates jobs filters =
     concat (map (score_entry today filters (required_skills_of filters jobs))
               (enumerate 1 candidates))"


section \<open>Example data\<close>

definition amina :: candidate where
  "amina =
     \<lparr>firstName = ustr ''Amina'', lastName = ustr ''Idrissi'',
      cand_location = Some (ustr ''Casablanca''), cand_skills = Some [ustr ''React'', ustr ''JS''],
      experienceYears = Some 1, availabilityDate = Some (ustr ''2025-01-15''),
      stage = Some (ustr ''SCREEN'')\<rparr>"

definition youssef :: candidate where
  "youssef =
     \<lparr>firstName = ustr ''Youssef'', lastName = ustr ''Alami'',
      cand_location = Some (ustr ''Rabat''), cand_skills = Some [ustr ''Python'', ustr ''Sql''],
      experienceYears = Some 5, availabilityDate = Some (ustr ''2025-03-01''),
      stage = None\<rparr>"

definition salma :: candidate where
  "salma =
     \<lparr>firstName = ustr ''Salma'', lastName = ustr ''Tazi'',
      cand_location = Some (ustr ''casablanca''), cand_skills = Some [ustr ''React''],
      experienceYears = Some 2, availabilityDate = Some (ustr ''soon''),
      stage = None\<rparr>"

definition hind :: candidate where
  "hind =
     \<lparr>firstName = ustr ''Hind'', lastName = ustr ''Berrada'',
      cand_location = Some (ustr ''Casablanca''), cand_skills = Some [ustr ''Html'', ustr ''React''],
      experienceYears = Some 3, availabilityDate = None,
      stage = None\<rparr>"

definition demo_store :: store where
  "demo_store =
     \<lparr>candidate_files = [CANDIDATES_FP \<mapsto> JSON [youssef, amina, salma, hind]],
      job_files = [JOBS_FP \<mapsto> NotJSON],
      shortlist_files = Map.empty\<rparr>"

definition demo_filter :: filter where
  "demo_filter =
     \<lparr>role = Some (ustr ''intern''), skills = [ustr ''React''],
      location = Some (ustr ''Casablanca''), minExp = Some 0, maxExp = Some 2,
      availabilityWindowDays = Some 30\<rparr>"

text \<open>The three results of a search with this filter on the example data, as ranked.\<close>

definition demo_ranked :: "scored list" where
  "demo_ranked =
     [\<lparr>index = 2, cand = amina, score = 5,
        reason = reason_text 5 [ustr ''React match (+2)'', ustr ''Casablanca (+1)'',
          ustr ''1y fits ('' @ [177] @ ustr ''1) (+1)'', ustr ''available in 5d (+1)'']\<rparr>,
      \<lparr>index = 3, cand = salma, score = 4,
        reason = reason_text 4 [ustr ''React match (+2)'', ustr ''Casablanca (+1)'',
          ustr ''2y fits ('' @ [177] @ ustr ''1) (+1)'']\<rparr>,
      \<lparr>index = 4, cand = hind, score = 4,
        reason = reason_text 4 [ustr ''React match (+2)'', ustr ''Casablanca (+1)'',
          ustr ''3y fits ('' @ [177] @ ustr ''1) (+1)'']\<rparr>]"

text \<open>A filter that no example candidate matches.\<close>

definition cobol_filter :: filter where
  "cobol_filter =
     \<lparr>role = None, skills = [ustr ''Cobol''], location = None, minExp = None, maxExp = Some 2,
      availabilityWindowDays = None\<rparr>"

text \<open>The ordinal of 10 January 2025.\<close>

definition demo_today :: int where
  "demo_today = 739261"

section \<open>Lemmas on the tables\<close>

lemma digit_zero_ascii:
  "c < 1632 \<Longrightarrow> digit_zero c = (if 48 \<le> c \<and> c \<le> 57 then Some 48 else None)"
  by (simp add: digit_zero_def nd_zeros_def)

lemma is_digit_ascii: "c < 1632 \<Longrightarrow> is_digit c = (48 \<le> c \<and> c \<le> 57)"
  by (simp add: is_digit_def digit_zero_ascii)

lemma digit_val_ascii: "c < 1632 \<Longrightarrow> digit_val c = (if 48 \<le> c \<and> c \<le> 57 then c - 48 else 0)"
  by (simp add: digit_val_def digit_zero_ascii)

lemma is_digit_lower: "is_digit (cp_lower c) = is_digit c"
  by (auto simp: cp_lower_def is_digit_ascii)

section \<open>Lemmas on the matcher\<close>


lemma takeWhile_len:
  "k \<le> length (takeWhile p xs) \<longleftrightarrow> (\<forall>m<k. m < length xs \<and> p (xs ! m))"
proof (induction xs arbitrary: k)
  case Nil
  show ?case by auto
next
  case (Cons x xs)
  show ?case
  proof (cases k)
    case 0
    then show ?thesis by simp
  next
    case (Suc k')
    show ?thesis
    proof (cases "p x")
      case True
      have "(\<forall>m<Suc k'. m < length (x # xs) \<and> p ((x # xs) ! m)) \<longleftrightarrow> (\<forall>m<k'. m < length xs \<and> p (xs ! m))"
      proof
        assume a: "\<forall>m<Suc k'. m < length (x # xs) \<and> p ((x # xs) ! m)"
        show "\<forall>m<k'. m < length xs \<and> p (xs ! m)"
        proof (intro allI impI)
          fix m assume "m < k'"
          then have "Suc m < Suc k'" by simp
          with a have "Suc m < length (x # xs) \<and> p ((x # xs) ! Suc m)" by blast
          then show "m < length xs \<and> p (xs ! m)" by simp
        qed
      next
        assume a: "\<forall>m<k'. m < length xs \<and> p (xs ! m)"
        show "\<forall>m<Suc k'. m < length (x # xs) \<and> p ((x # xs) ! m)"
        proof (intro allI impI)
          fix m assume "m < Suc k'"
          then show "m < length (x # xs) \<and> p ((x # xs) ! m)"
            using a True by (cases m) auto
        qed
      qed
      then show ?thesis using Suc True Cons.IH[of k'] by simp
    next
      case False
      then show ?thesis using Suc by auto
    qed
  qed
qed


lemma set_star:
  "set (rx_m t (Star p) (i, c)) = {(i + k, c) |k. k \<le> length (takeWhile p (drop i t))}"
  by (auto simp: image_iff less_Suc_eq_le)

lemma set_plus:
  "set (rx_m t (Plus p) (i, c)) = {(i + k, c) |k. 1 \<le> k \<and> k \<le> length (takeWhile p (drop i t))}"
  by (auto simp: image_iff less_Suc_eq_le)



lemma search_at_Some:
  "search_at t r ss = Some m \<Longrightarrow>
     m_start m \<in> set ss \<and> (m_end m, m_caps m) \<in> set (rx_m t r (m_start m, Map.empty))"
  by (induction ss) (auto split: list.splits)


lemma take_run:
  assumes "k \<le> length (takeWhile p xs)"
  shows "list_all p (take k xs) \<and> length (take k xs) = k"
proof -
  have a: "\<forall>m<k. m < length xs \<and> p (xs ! m)" using assms by (simp add: takeWhile_len)
  have kl: "k \<le> length xs" using assms length_takeWhile_le[of p xs] by simp
  show ?thesis using a kl by (simp add: list_all_length)
qed

lemma set_cat: "set (rx_m t (Cat a b) st) = (\<Union>st' \<in> set (rx_m t a st). set (rx_m t b st'))"
  by simp

lemma set_alt: "set (rx_m t (Alt a b) st) = set (rx_m t a st) \<union> set (rx_m t b st)"
  by simp

lemma set_opt: "set (rx_m t (Opt a) st) = insert st (set (rx_m t a st))"
  by simp

lemma set_grp:
  "set (rx_m t (Grp n a) (i, c)) = (\<lambda>jc. (fst jc, (snd jc)(n \<mapsto> (i, fst jc)))) ` set (rx_m t a (i, c))"
  by (simp add: case_prod_unfold)

lemma grp_plus_run:
  assumes "(j, c') \<in> set (rx_m t (Grp n (Plus p)) (i, c))"
  shows "caps_run p t c' n"
proof -
  obtain jc where jc: "jc \<in> set (rx_m t (Plus p) (i, c))" "j = fst jc" "c' = (snd jc)(n \<mapsto> (i, fst jc))"
    using assms unfolding set_grp by auto
  obtain k where k: "jc = (i + k, c)" "1 \<le> k" "k \<le> length (takeWhile p (drop i t))"
    using jc(1) unfolding set_plus by blast
  have "slice t i (i + k) = take k (drop i t)" by (simp add: slice_def)
  moreover have "list_all p (take k (drop i t)) \<and> length (take k (drop i t)) = k"
    using take_run[OF k(3)] .
  moreover have "c' n = Some (i, i + k)" using jc k by simp
  ultimately show ?thesis using k(2) by (auto simp: caps_run_def)
qed

lemma grp_other_run:
  assumes "(j, c') \<in> set (rx_m t (Grp m a) (i, c))" and "m \<noteq> n"
    and "\<And>c1. (j, c1) \<in> set (rx_m t a (i, c)) \<Longrightarrow> caps_run p t c1 n"
  shows "caps_run p t c' n"
proof -
  obtain jc where jc: "jc \<in> set (rx_m t a (i, c))" "j = fst jc" "c' = (snd jc)(m \<mapsto> (i, fst jc))"
    using assms(1) unfolding set_grp by auto
  have "(j, snd jc) \<in> set (rx_m t a (i, c))" using jc by simp
  then have "caps_run p t (snd jc) n" by (rule assms(3))
  then show ?thesis using jc(3) assms(2) by (simp add: caps_run_def)
qed

lemma keeps_group_run:
  "keeps_group p n r \<Longrightarrow> caps_run p t c n \<Longrightarrow> (j, c') \<in> set (rx_m t r (i, c)) \<Longrightarrow> caps_run p t c' n"
proof (induction r arbitrary: i j c c')
  case (Lit s)
  then show ?case by (simp split: if_splits)
next
  case (Cls q)
  then show ?case by (simp split: if_splits)
next
  case (Cat a b)
  obtain st' where s: "st' \<in> set (rx_m t a (i, c))" "(j, c') \<in> set (rx_m t b st')"
    using Cat.prems(3) unfolding set_cat by blast
  obtain k c1 where st': "st' = (k, c1)" by (cases st')
  have ka: "keeps_group p n a" and kb: "keeps_group p n b" using Cat.prems(1) by simp_all
  have "caps_run p t c1 n" using Cat.IH(1)[OF ka Cat.prems(2)] s(1) st' by blast
  then show ?case using Cat.IH(2)[OF kb] s(2) st' by blast
next
  case (Alt a b)
  have ka: "keeps_group p n a" and kb: "keeps_group p n b" using Alt.prems(1) by simp_all
  have "(j, c') \<in> set (rx_m t a (i, c)) \<or> (j, c') \<in> set (rx_m t b (i, c))"
    using Alt.prems(3) unfolding set_alt by blast
  then show ?case using Alt.IH(1)[OF ka Alt.prems(2)] Alt.IH(2)[OF kb Alt.prems(2)] by blast
next
  case (Star q)
  have "c' = c" using Star.prems(3) unfolding set_star by blast
  then show ?case using Star.prems(2) by simp
next
  case (Plus q)
  have "c' = c" using Plus.prems(3) unfolding set_plus by blast
  then show ?case using Plus.prems(2) by simp
next
  case (Opt a)
  have ka: "keeps_group p n a" using Opt.prems(1) by simp
  have "(j, c') \<in> set (rx_m t a (i, c)) \<or> (j, c') = (i, c)"
    using Opt.prems(3) unfolding set_opt by blast
  then show ?case using Opt.IH[OF ka Opt.prems(2)] Opt.prems(2) by blast
next
  case (Grp m a)
  show ?case
  proof (cases "m = n")
    case True
    then have a: "a = Plus p" using Grp.prems(1) by simp
    show ?thesis using Grp.prems(3) grp_plus_run unfolding a True by blast
  next
    case False
    then have ka: "keeps_group p n a" using Grp.prems(1) by simp
    show ?thesis
      using grp_other_run[OF Grp.prems(3) False] Grp.IH[OF ka Grp.prems(2)] by blast
  qed
next
  case WordB
  then show ?case by (simp split: if_splits)
qed

lemma sets_group_run:
  "sets_group p n r \<Longrightarrow> (j, c') \<in> set (rx_m t r (i, c)) \<Longrightarrow> caps_run p t c' n"
proof (induction r arbitrary: i j c c')
  case (Cat a b)
  obtain st' where s: "st' \<in> set (rx_m t a (i, c))" "(j, c') \<in> set (rx_m t b st')"
    using Cat.prems(2) unfolding set_cat by blast
  obtain k c1 where st': "st' = (k, c1)" by (cases st')
  show ?case
  proof (cases "sets_group p n b")
    case True
    then show ?thesis using Cat.IH(2) s(2) st' by blast
  next
    case False
    then have sa: "sets_group p n a" and kb: "keeps_group p n b" using Cat.prems(1) by auto
    have "caps_run p t c1 n" using Cat.IH(1)[OF sa] s(1) st' by blast
    then show ?thesis using keeps_group_run[OF kb] s(2) st' by blast
  qed
next
  case (Alt a b)
  have sa: "sets_group p n a" and sb: "sets_group p n b" using Alt.prems(1) by simp_all
  have "(j, c') \<in> set (rx_m t a (i, c)) \<or> (j, c') \<in> set (rx_m t b (i, c))"
    using Alt.prems(2) unfolding set_alt by blast
  then show ?case using Alt.IH(1)[OF sa] Alt.IH(2)[OF sb] by blast
next
  case (Grp m a)
  show ?case
  proof (cases "m = n")
    case True
    then have a: "a = Plus p" using Grp.prems(1) by simp
    show ?thesis using Grp.prems(2) grp_plus_run unfolding a True by blast
  next
    case False
    then have sa: "sets_group p n a" using Grp.prems(1) by simp
    show ?thesis
      using grp_other_run[OF Grp.prems(2) False] Grp.IH[OF sa] by blast
  qed
qed simp_all

lemma re_search_group:
  assumes "sets_group p n r" and "re_search r t = Some m"
  shows "\<exists>g. group t m n = Some g \<and> g \<noteq> [] \<and> list_all p g"
proof -
  have "(m_end m, m_caps m) \<in> set (rx_m t r (m_start m, Map.empty))"
    using assms(2) search_at_Some unfolding re_search_def by blast
  then have "caps_run p t (m_caps m) n" using sets_group_run[OF assms(1)] by blast
  then show ?thesis by (auto simp: caps_run_def group_def split: option.splits)
qed

lemma int_group_digits:
  assumes "sets_group is_digit n r" and "re_search r t = Some m"
  shows "\<exists>g. group t m n = Some g \<and> g \<noteq> [] \<and> list_all is_digit g \<and>
             int_group t m n = py_int g"
  using re_search_group[OF assms] by (auto simp: int_group_def)

lemma py_int_Inr: "py_int g = Inr v \<Longrightarrow> v = int (digits_value g)"
  by (simp add: py_int_def split: if_splits)

lemma py_int_ok:
  "g \<noteq> [] \<Longrightarrow> list_all is_digit g \<Longrightarrow> length g \<le> max_str_digits \<Longrightarrow>
     py_int g = Inr (int (digits_value g))"
  by (simp add: py_int_def)

lemma group_within:
  assumes "digit_runs_within k t" and "group t m n = Some g" and "list_all is_digit g"
  shows "length g \<le> k"
proof -
  obtain a b where "g = slice t a b"
    using assms(2) by (auto simp: group_def split: option.splits)
  then show ?thesis using assms(1,3) by (simp add: digit_runs_within_def)
qed

lemma digit_runs_short: "length t \<le> n \<Longrightarrow> digit_runs_within n t"
  by (auto simp: digit_runs_within_def slice_def min_def)

lemma slice_map: "slice (map f t) a b = map f (slice t a b)"
  by (simp add: slice_def take_map drop_map)

lemma digit_runs_lower: "digit_runs_within n t \<Longrightarrow> digit_runs_within n (py_lower t)"
  by (simp add: digit_runs_within_def py_lower_def slice_map list_all_iff is_digit_lower)

lemma py_strip_sub: "\<exists>k m. py_strip s = take m (drop k s)"
proof -
  let ?d = "dropWhile is_space s"
  have a: "?d = drop (length (takeWhile is_space s)) s"
    by (rule dropWhile_eq_drop)
  have "rev (dropWhile is_space (rev ?d)) = rev (drop (length (takeWhile is_space (rev ?d))) (rev ?d))"
    by (simp only: dropWhile_eq_drop[symmetric])
  also have "\<dots> = take (length ?d - length (takeWhile is_space (rev ?d))) ?d"
    by (simp only: rev_drop rev_rev_ident length_rev)
  finally have b: "py_strip s = take (length ?d - length (takeWhile is_space (rev ?d))) ?d"
    by (simp only: py_strip_def)
  have "take (length ?d - length (takeWhile is_space (rev ?d))) ?d =
        take (length ?d - length (takeWhile is_space (rev ?d))) (drop (length (takeWhile is_space s)) s)"
    by (rule arg_cong[OF a])
  with b have "py_strip s =
        take (length ?d - length (takeWhile is_space (rev ?d))) (drop (length (takeWhile is_space s)) s)"
    by (rule trans)
  then show ?thesis by (intro exI)
qed

lemma slice_sub: "slice (take m (drop k s)) a b = slice s (a + k) (a + k + min (b - a) (m - a))"
  by (simp add: slice_def drop_take min.commute)

lemma digit_runs_strip: "digit_runs_within n t \<Longrightarrow> digit_runs_within n (py_strip t)"
proof -
  assume h: "digit_runs_within n t"
  obtain k m where s: "py_strip t = take m (drop k t)" using py_strip_sub by blast
  show ?thesis unfolding s digit_runs_within_def slice_sub
    using h unfolding digit_runs_within_def by blast
qed

lemma digit_runs_text:
  "digit_runs_within n text \<Longrightarrow> digit_runs_within n (py_strip (py_lower text))"
  by (intro digit_runs_strip digit_runs_lower)

lemma sets_range: "sets_group is_digit 1 range_re" "sets_group is_digit 2 range_re"
  by (simp_all add: range_re_def year_unit_def)

lemma sets_single: "sets_group is_digit 1 single_re"
  by (simp add: single_re_def year_unit_def)

lemma sets_avail: "sets_group is_digit 1 avail_re"
  by (simp add: avail_re_def)

lemma sets_loc: "sets_group loc_char 1 loc_re"
  by (simp add: loc_re_def)

section \<open>Lemmas on the parser\<close>




lemma parse_location_ok: "\<exists>l. parse_location t = Inr l"
proof (cases "re_search loc_re t")
  case None
  then show ?thesis by (simp add: parse_location_def)
next
  case (Some m)
  obtain g where "group t m 1 = Some g" using re_search_group[OF sets_loc Some] by blast
  then show ?thesis using Some by (simp add: parse_location_def)
qed

lemma parse_experience_range:
  assumes "re_search range_re t = Some m" and "parse_experience t = Inr (mn, mx)"
  shows "\<exists>a b. group t m 1 = Some a \<and> group t m 2 = Some b \<and>
           a \<noteq> [] \<and> list_all is_digit a \<and> b \<noteq> [] \<and> list_all is_digit b \<and>
           mn = Some (int (digits_value a)) \<and> mx = Some (int (digits_value b))"
proof -
  obtain a where a: "group t m 1 = Some a" "a \<noteq> []" "list_all is_digit a"
      "int_group t m 1 = py_int a"
    using int_group_digits[OF sets_range(1) assms(1)] by blast
  obtain b where b: "group t m 2 = Some b" "b \<noteq> []" "list_all is_digit b"
      "int_group t m 2 = py_int b"
    using int_group_digits[OF sets_range(2) assms(1)] by blast
  have "\<exists>x y. py_int a = Inr x \<and> py_int b = Inr y \<and> mn = Some x \<and> mx = Some y"
    using assms a(4) b(4) by (auto simp: parse_experience_def split: sum.splits)
  then show ?thesis using a b py_int_Inr by blast
qed

lemma parse_experience_single:
  assumes "re_search range_re t = None" and "re_search single_re t = Some m"
    and "parse_experience t = Inr (mn, mx)"
  shows "\<exists>v. group t m 1 = Some v \<and> v \<noteq> [] \<and> list_all is_digit v \<and>
           mn = Some (max 0 (int (digits_value v) - 1)) \<and> mx = Some (int (digits_value v))"
proof -
  obtain v where v: "group t m 1 = Some v" "v \<noteq> []" "list_all is_digit v"
      "int_group t m 1 = py_int v"
    using int_group_digits[OF sets_single assms(2)] by blast
  have "\<exists>x. py_int v = Inr x \<and> mn = Some (max 0 (x - 1)) \<and> mx = Some x"
    using assms v(4) by (auto simp: parse_experience_def split: sum.splits)
  then show ?thesis using v py_int_Inr by blast
qed

lemma parse_experience_none:
  "re_search range_re t = None \<Longrightarrow> re_search single_re t = None \<Longrightarrow>
     parse_experience t = Inr (None, None)"
  by (simp add: parse_experience_def)

lemma parse_experience_ok:
  assumes "digit_runs_within max_str_digits t"
  shows "\<exists>mn mx. parse_experience t = Inr (mn, mx)"
proof (cases "re_search range_re t")
  case (Some m)
  obtain a where a: "group t m 1 = Some a" "a \<noteq> []" "list_all is_digit a"
      "int_group t m 1 = py_int a"
    using int_group_digits[OF sets_range(1) Some] by blast
  obtain b where b: "group t m 2 = Some b" "b \<noteq> []" "list_all is_digit b"
      "int_group t m 2 = py_int b"
    using int_group_digits[OF sets_range(2) Some] by blast
  have "py_int a = Inr (int (digits_value a))"
    using a group_within[OF assms a(1) a(3)] by (simp add: py_int_ok)
  moreover have "py_int b = Inr (int (digits_value b))"
    using b group_within[OF assms b(1) b(3)] by (simp add: py_int_ok)
  ultimately show ?thesis using Some a(4) b(4) by (simp add: parse_experience_def)
next
  case None
  show ?thesis
  proof (cases "re_search single_re t")
    case (Some m)
    obtain v where v: "group t m 1 = Some v" "v \<noteq> []" "list_all is_digit v"
        "int_group t m 1 = py_int v"
      using int_group_digits[OF sets_single Some] by blast
    have "py_int v = Inr (int (digits_value v))"
      using v group_within[OF assms v(1) v(3)] by (simp add: py_int_ok)
    then show ?thesis using None Some v(4) by (simp add: parse_experience_def)
  next
    case n: None
    then show ?thesis using None parse_experience_none by blast
  qed
qed

lemma parse_availability_Inr:
  assumes "parse_availability t = Inr w"
  shows "w = (if contains t (ustr ''available this month'') \<or> contains t (ustr ''this month'')
              then Some 30
              else if contains t (ustr ''available next month'') then Some 45
              else (case re_search avail_re t of
                      Some m \<Rightarrow> map_option (\<lambda>g. int (digits_value g)) (group t m 1)
                    | None \<Rightarrow> None))"
proof (cases "re_search avail_re t")
  case None
  then show ?thesis using assms by (auto simp: parse_availability_def split: if_splits)
next
  case (Some m)
  obtain g where g: "group t m 1 = Some g" "int_group t m 1 = py_int g"
    using int_group_digits[OF sets_avail Some] by blast
  show ?thesis
  proof (cases "contains t (ustr ''available this month'') \<or> contains t (ustr ''this month'')")
    case True
    then show ?thesis using assms by (auto simp: parse_availability_def)
  next
    case False
    show ?thesis
    proof (cases "py_int g")
      case (Inl e)
      then have "parse_availability t = Inl e"
        using False Some g(2) by (simp add: parse_availability_def)
      then show ?thesis using assms by simp
    next
      case (Inr x)
      then have "w = (if contains t (ustr ''available next month'') then Some 45 else Some x)"
        using assms False Some g(2) by (simp add: parse_availability_def)
      then show ?thesis using False Some g(1) py_int_Inr[OF Inr] by simp
    qed
  qed
qed

lemma parse_availability_ok:
  assumes "digit_runs_within max_str_digits t"
  shows "\<exists>w. parse_availability t = Inr w"
proof (cases "re_search avail_re t")
  case None
  then show ?thesis by (simp add: parse_availability_def)
next
  case (Some m)
  obtain g where g: "group t m 1 = Some g" "g \<noteq> []" "list_all is_digit g"
      "int_group t m 1 = py_int g"
    using int_group_digits[OF sets_avail Some] by blast
  have "py_int g = Inr (int (digits_value g))"
    using g group_within[OF assms g(1) g(3)] by (simp add: py_int_ok)
  then show ?thesis using Some g(4) by (simp add: parse_availability_def)
qed

lemma parse_query_Inr:
  assumes "parse_query text = Inr f"
  shows "\<exists>loc mn mx w.
     parse_location (py_strip (py_lower text)) = Inr loc \<and>
     parse_experience (py_strip (py_lower text)) = Inr (mn, mx) \<and>
     parse_availability (py_strip (py_lower text)) = Inr w \<and>
     f = \<lparr>role = parse_role (py_strip (py_lower text)),
          skills = parse_skills (py_strip (py_lower text)),
          location = loc, minExp = mn, maxExp = mx, availabilityWindowDays = w\<rparr>"
  using assms by (auto simp: parse_query_def Let_def split: sum.splits prod.splits)

lemma parse_query_ok:
  assumes "digit_runs_within max_str_digits text"
  shows "\<exists>f. parse_query text = Inr f"
proof -
  note t = digit_runs_text[OF assms]
  obtain loc where l: "parse_location (py_strip (py_lower text)) = Inr loc"
    using parse_location_ok by blast
  obtain mn mx where e: "parse_experience (py_strip (py_lower text)) = Inr (mn, mx)"
    using parse_experience_ok[OF t] by blast
  obtain w where a: "parse_availability (py_strip (py_lower text)) = Inr w"
    using parse_availability_ok[OF t] by blast
  show ?thesis using l e a by (simp add: parse_query_def Let_def)
qed













section \<open>Lemmas on scoring and search\<close>

lemma rule_skills_fst:
  "fst (rule_skills c req sr) = fst sr + 2 * int (length (filter (\<lambda>s. s \<in> set (get_skills c)) req))"
  by (simp add: rule_skills_def Let_def)

lemma rule_location_fst:
  "fst (rule_location c loc sr) =
     fst sr + (case loc of Some l \<Rightarrow> if l \<noteq> [] \<and> py_lower l = py_lower (get_location c) then 1 else 0 | None \<Rightarrow> 0)"
  by (simp add: rule_location_def split: option.splits)

lemma rule_experience_fst:
  "fst (rule_experience c mn mx sr) =
     fst sr + (case (mn, mx) of (Some lo, Some hi) \<Rightarrow>
                 if lo - 1 \<le> get_experience c \<and> get_experience c \<le> hi + 1 then 1 else 0
               | _ \<Rightarrow> 0)"
  by (simp add: rule_experience_def Let_def split: option.splits)

lemma rule_availability_fst:
  "fst (rule_availability today c av sr) =
     fst sr + (case av of
          Some w \<Rightarrow>
            (case Option.bind (availabilityDate c) fromisoformat of
               Some avail \<Rightarrow> if w \<noteq> 0 \<and> 0 \<le> avail - today \<and> avail - today \<le> w then 1 else 0
             | None \<Rightarrow> 0)
        | None \<Rightarrow> 0)"
  by (simp add: rule_availability_def Let_def split: option.splits)

lemma rule_skills_mono:
  "fst (rule_skills c req sr) \<le> fst (rule_skills (with_skill c s) req sr)"
proof -
  have "length (filter (\<lambda>x. x \<in> set (get_skills c)) req)
        \<le> length (filter (\<lambda>x. x \<in> set (get_skills (with_skill c s))) req)"
  proof (induction req)
    case Nil show ?case by simp
  next
    case (Cons a req)
    then show ?case by (auto simp: with_skill_def get_skills_def)
  qed
  then show ?thesis by (simp add: rule_skills_fst)
qed


lemma rule_skills_inv: "score_inv sr \<Longrightarrow> score_inv (rule_skills c req sr)"
  by (auto simp: score_inv_def rule_skills_def Let_def)

lemma rule_location_inv: "score_inv sr \<Longrightarrow> score_inv (rule_location c loc sr)"
  by (auto simp: score_inv_def rule_location_def split: option.splits)

lemma rule_experience_inv: "score_inv sr \<Longrightarrow> score_inv (rule_experience c mn mx sr)"
  by (auto simp: score_inv_def rule_experience_def Let_def split: option.splits)

lemma rule_availability_inv: "score_inv sr \<Longrightarrow> score_inv (rule_availability today c av sr)"
  by (auto simp: score_inv_def rule_availability_def Let_def split: option.splits)

lemma score_candidate_inv: "score_inv (score_candidate today c req loc mn mx av)"
  unfolding score_candidate_def
  by (intro rule_availability_inv rule_experience_inv rule_location_inv rule_skills_inv)
     (simp add: score_inv_def)

lemma set_py_take: "set (py_take n xs) \<subseteq> set xs"
  by (auto simp: py_take_def dest: in_set_takeD)

lemma in_score_entry:
  "r \<in> set (score_entry today filters req ic) \<longleftrightarrow>
     (0 < fst (score_candidate today (snd ic) req (location filters) (minExp filters)
                 (maxExp filters) (availabilityWindowDays filters)) \<and>
      r = \<lparr>index = fst ic, cand = snd ic,
           score = fst (score_candidate today (snd ic) req (location filters) (minExp filters)
                          (maxExp filters) (availabilityWindowDays filters)),
           reason = reason_text
                      (fst (score_candidate today (snd ic) req (location filters) (minExp filters)
                          (maxExp filters) (availabilityWindowDays filters)))
                      (snd (score_candidate today (snd ic) req (location filters) (minExp filters)
                          (maxExp filters) (availabilityWindowDays filters)))\<rparr>)"
  by (auto simp: score_entry_def Let_def)

lemma in_enumerate_1:
  "(i, c) \<in> set (enumerate (Suc 0) cs) \<longleftrightarrow> (Suc 0 \<le> i \<and> i \<le> length cs \<and> c = cs ! (i - Suc 0))"
  by (auto simp: in_set_enumerate_eq)

lemma search_candidates_alt:
  "load_json (candidate_files st) CANDIDATES_FP [] = Inr cands \<Longrightarrow>
   load_json (job_files st) JOBS_FP [] = Inr jobs \<Longrightarrow>
   search_candidates today st filters top_n =
     Inr (py_take top_n (sort_by_score (results_of today cands jobs filters)))"
  by (simp add: search_candidates_def results_of_def Let_def)

lemma search_candidates_Inl:
  "load_json (candidate_files st) CANDIDATES_FP [] = Inl e \<Longrightarrow>
   search_candidates today st filters top_n = Inl e"
  "load_json (candidate_files st) CANDIDATES_FP [] = Inr cands \<Longrightarrow>
   load_json (job_files st) JOBS_FP [] = Inl e \<Longrightarrow>
   search_candidates today st filters top_n = Inl e"
  by (simp_all add: search_candidates_def)

lemma in_results_of:
  "r \<in> set (results_of today cands jobs filters) \<Longrightarrow>
     1 \<le> index r \<and> index r \<le> length cands \<and>
     cand r = cands ! (index r - 1) \<and>
     0 < score r \<and>
     score r = fst (score_candidate today (cand r) (required_skills_of filters jobs)
                 (location filters) (minExp filters) (maxExp filters) (availabilityWindowDays filters)) \<and>
     reason r = reason_text (score r) (snd (score_candidate today (cand r)
                 (required_skills_of filters jobs)
                 (location filters) (minExp filters) (maxExp filters) (availabilityWindowDays filters)))"
  unfolding results_of_def
  by (auto simp: in_score_entry in_enumerate_1)

lemma in_ranked:
  "r \<in> set (py_take top_n (sort_by_score rs)) \<Longrightarrow> r \<in> set rs"
  using set_py_take[of top_n "sort_by_score rs"]
  by (auto simp: sort_by_score_def)

lemma entries_increasing:
  "sorted_wrt (\<lambda>a b. index a < index b) (concat (map (score_entry today filters req) (enumerate n cs)))
   \<and> (\<forall>r \<in> set (concat (map (score_entry today filters req) (enumerate n cs))). n \<le> index r)"
proof (induction cs arbitrary: n)
  case Nil
  show ?case by simp
next
  case (Cons c cs)
  have ih: "sorted_wrt (\<lambda>a b. index a < index b)
              (concat (map (score_entry today filters req) (enumerate (Suc n) cs)))"
       "\<forall>r \<in> set (concat (map (score_entry today filters req) (enumerate (Suc n) cs))). Suc n \<le> index r"
    using Cons.IH[of "Suc n"] by blast+
  have hd: "\<forall>r \<in> set (score_entry today filters req (n, c)). index r = n"
    by (auto simp: score_entry_def Let_def)
  have len: "length (score_entry today filters req (n, c)) \<le> 1"
    by (simp add: score_entry_def Let_def)
  have s1: "sorted_wrt (\<lambda>a b. index a < index b) (score_entry today filters req (n, c))"
    by (simp add: score_entry_def Let_def)
  show ?case
    using ih hd s1 by (fastforce simp: sorted_wrt_append)
qed

lemma insort_tie_order:
  assumes "\<forall>y \<in> set ys. R x y"
      and "sorted_wrt (\<lambda>a b. f a < f b \<or> (f a = f b \<and> R a b)) ys"
  shows "sorted_wrt (\<lambda>a b. f a < f b \<or> (f a = f b \<and> R a b)) (insort_key f x ys)"
  using assms
proof (induction ys)
  case Nil
  show ?case by simp
next
  case (Cons y ys)
  show ?case
  proof (cases "f x \<le> f y")
    case True
    have "\<forall>z \<in> set (y # ys). f x < f z \<or> (f x = f z \<and> R x z)"
      using True Cons.prems by fastforce
    then show ?thesis using True Cons.prems by simp
  next
    case False
    have "sorted_wrt (\<lambda>a b. f a < f b \<or> (f a = f b \<and> R a b)) (insort_key f x ys)"
      using Cons by simp
    moreover have "\<forall>z \<in> set (insort_key f x ys). f y < f z \<or> (f y = f z \<and> R y z)"
      using False Cons.prems by (auto simp: set_insort_key)
    ultimately show ?thesis using False by simp
  qed
qed

lemma sort_key_tie_order:
  "sorted_wrt R xs \<Longrightarrow> sorted_wrt (\<lambda>a b. f a < f b \<or> (f a = f b \<and> R a b)) (sort_key f xs)"
proof (induction xs)
  case Nil
  show ?case by simp
next
  case (Cons x xs)
  have "\<forall>y \<in> set (sort_key f xs). R x y" using Cons.prems by simp
  moreover have "sorted_wrt (\<lambda>a b. f a < f b \<or> (f a = f b \<and> R a b)) (sort_key f xs)"
    using Cons by simp
  ultimately show ?case by (simp add: insort_tie_order)
qed

lemma sorted_wrt_py_take: "sorted_wrt P xs \<Longrightarrow> sorted_wrt P (py_take n xs)"
  by (simp add: py_take_def sorted_wrt_take)

lemma ranked_ordered:
  "sorted_wrt (\<lambda>a b. score a > score b \<or> (score a = score b \<and> index a < index b))
     (py_take top_n (sort_by_score (results_of today cands jobs filters)))"
proof -
  have "sorted_wrt (\<lambda>a b. index a < index b) (results_of today cands jobs filters)"
    unfolding results_of_def using entries_increasing by blast
  then have "sorted_wrt (\<lambda>a b. - score a < - score b \<or> (- score a = - score b \<and> index a < index b))
               (sort_by_score (results_of today cands jobs filters))"
    unfolding sort_by_score_def by (rule sort_key_tie_order)
  then show ?thesis
    by (simp add: sorted_wrt_py_take)
qed

lemma ranked_length:
  "0 \<le> top_n \<Longrightarrow> length (py_take top_n (sort_by_score rs)) \<le> nat top_n"
  by (simp add: py_take_def)

lemma results_of_empty:
  assumes "\<forall>c \<in> set cands.
             fst (score_candidate today c (required_skills_of filters jobs)
                 (location filters) (minExp filters) (maxExp filters) (availabilityWindowDays filters)) \<le> 0"
  shows "results_of today cands jobs filters = []"
proof -
  have "\<forall>ic \<in> set (enumerate 1 cands).
          score_entry today filters (required_skills_of filters jobs) ic = []"
  proof
    fix ic assume "ic \<in> set (enumerate 1 cands)"
    then have "(fst ic, snd ic) \<in> set (enumerate (Suc 0) cands)"
      by simp
    then have "snd ic \<in> set cands"
      unfolding in_enumerate_1 by auto
    with assms show "score_entry today filters (required_skills_of filters jobs) ic = []"
      by (auto simp: score_entry_def Let_def)
  qed
  then show ?thesis by (simp add: results_of_def)
qed

section \<open>Evaluation of the example data\<close>

lemmas str_ev = ustr_def py_lower_def cp_lower_def py_strip_def is_space_def is_digit_ascii
  digit_val_ascii is_word_def slice_def digits_value_def upt_rec

lemmas date_ev = fromisoformat_def is_ascii_digit_def ascii_value_def days_in_month_def is_leap_def ymd2ord_def
  days_before_year_def days_before_month_def

lemmas score_ev = score_candidate_def rule_skills_def rule_location_def rule_experience_def
  rule_availability_def get_skills_def get_location_def get_experience_def str_int_def str_nat.simps


lemma score_youssef:
  "score_candidate demo_today youssef [ustr ''React''] (Some (ustr ''Casablanca'')) (Some 0) (Some 2)
     (Some 30) = (0, [])"
  by (simp add: score_ev date_ev str_ev youssef_def demo_today_def)

lemma score_amina:
  "score_candidate demo_today amina [ustr ''React''] (Some (ustr ''Casablanca'')) (Some 0) (Some 2)
     (Some 30) =
   (5, [ustr ''React match (+2)'', ustr ''Casablanca (+1)'',
        ustr ''1y fits ('' @ [177] @ ustr ''1) (+1)'', ustr ''available in 5d (+1)''])"
  by (simp add: score_ev date_ev str_ev amina_def demo_today_def)

lemma score_salma:
  "score_candidate demo_today salma [ustr ''React''] (Some (ustr ''Casablanca'')) (Some 0) (Some 2)
     (Some 30) =
   (4, [ustr ''React match (+2)'', ustr ''Casablanca (+1)'',
        ustr ''2y fits ('' @ [177] @ ustr ''1) (+1)''])"
  by (simp add: score_ev date_ev str_ev salma_def demo_today_def)

lemma score_hind:
  "score_candidate demo_today hind [ustr ''React''] (Some (ustr ''Casablanca'')) (Some 0) (Some 2)
     (Some 30) =
   (4, [ustr ''React match (+2)'', ustr ''Casablanca (+1)'',
        ustr ''3y fits ('' @ [177] @ ustr ''1) (+1)''])"
  by (simp add: score_ev date_ev str_ev hind_def demo_today_def)

lemma demo_load:
  "load_json (candidate_files demo_store) CANDIDATES_FP [] = Inr [youssef, amina, salma, hind]"
  "load_json (job_files demo_store) JOBS_FP [] = Inr []"
  "load_json (shortlist_files demo_store) SHORTLISTS_FP Map.empty = Inr Map.empty"
  by (simp_all add: load_json_def demo_store_def)

lemma demo_sorted:
  "sort_by_score (results_of demo_today [youssef, amina, salma, hind] [] demo_filter) = demo_ranked"
  by (simp add: results_of_def score_entry_def required_skills_of_def sort_by_score_def
      enumerate_eq_zip upt_rec demo_filter_def demo_ranked_def
      score_youssef score_amina score_salma score_hind)

lemma demo_search:
  "search_candidates demo_today demo_store demo_filter top_n = Inr (py_take top_n demo_ranked)"
  by (simp add: search_candidates_alt[OF demo_load(1) demo_load(2)] demo_sorted)

lemma demo_reason:
  "reason (hd demo_ranked) =
     ustr ''React match (+2), Casablanca (+1), 1y fits ('' @ [177]
       @ ustr ''1) (+1), available in 5d (+1) '' @ [8594] @ ustr '' score 5''"
  by (simp add: demo_ranked_def reason_text_def ustr_def str_int_def str_nat.simps)

lemma demo_none:
  "\<forall>c \<in> set [youssef, amina, salma, hind].
      fst (score_candidate demo_today c (required_skills_of cobol_filter [])
            (location cobol_filter) (minExp cobol_filter) (maxExp cobol_filter)
            (availabilityWindowDays cobol_filter)) \<le> 0"
  by (simp add: cobol_filter_def required_skills_of_def
      score_ev str_ev youssef_def amina_def salma_def hind_def)

lemmas parse_ev = parse_query_def parse_role_def parse_location_def parse_experience_def
  parse_skills_def parse_availability_def re_search_def re_findall_def role_re_def loc_re_def
  range_re_def single_re_def skill_re_def avail_re_def year_unit_def known_cities_def
  int_group_def group_def group0_def py_int_def max_str_digits_def loc_char_def is_boundary_def word_at_def
  add_skill_def norm_skill_def norm_def py_title_def py_capitalize_def py_upper_def cp_title_def
  cp_upper_def is_cased_def


section \<open>The claims\<close>



text \<open>
  C5. Adding a skill to a candidate's skills never lowers the candidate's score, for any
  fixed filter arguments and any skill.
\<close>

theorem score_monotone_in_skills:
  "fst (score_candidate today c required_skills loc mn mx availability_days)
   \<le> fst (score_candidate today (with_skill c s) required_skills loc mn mx availability_days)"
proof -
  have g: "get_location (with_skill c s) = get_location c"
          "get_experience (with_skill c s) = get_experience c"
          "availabilityDate (with_skill c s) = availabilityDate c"
    by (simp_all add: with_skill_def get_location_def get_experience_def)
  define k where "k = fst (score_candidate today c required_skills loc mn mx availability_days)
                      - fst (rule_skills c required_skills (0, []))"
  have a: "fst (score_candidate today c required_skills loc mn mx availability_days)
           = fst (rule_skills c required_skills (0, [])) + k"
    by (simp add: k_def)
  have b: "fst (score_candidate today (with_skill c s) required_skills loc mn mx availability_days)
           = fst (rule_skills (with_skill c s) required_skills (0, [])) + k"
    unfolding k_def score_candidate_def
    by (simp only: rule_location_fst rule_experience_fst rule_availability_fst g)
  show ?thesis
    unfolding a b using rule_skills_mono[of c required_skills "(0, [])" s] by simp
qed



text \<open>
  C7. For every job title and tone, \<open>draft_email\<close> on an empty list of recipients returns
  the record whose subject and text are both the empty string, and not an error: no file
  is read before.
\<close>

theorem draft_email_empty:
  "draft_email st [] job_title tone = Inr \<lparr>subject = [], email_text = []\<rparr>"
  by (simp add: draft_email_def)

text \<open>
  C9, as the program has it. For every path and default, loading a document whose file is
  missing returns the default, and so does loading a file on which \<^verbatim>\<open>json.load\<close> raises
  \<^verbatim>\<open>JSONDecodeError\<close>. An error is surfaced exactly when opening or reading the file
  raises another exception, and then it is that exception.
\<close>

theorem load_json_default:
  "load_json (fs(path := None)) path d = Inr d \<and>
   load_json (fs(path \<mapsto> NotJSON)) path d = Inr d \<and>
   (load_json fs path d = Inl e \<longleftrightarrow> fs path = Some (Raises e))"
  by (simp add: load_json_def split: option.splits contents.splits)

text \<open>
  C9 as the specification states it, for every file whose contents are not parseable JSON,
  fails on a candidates file whose bytes are not UTF-8, such as a file that holds the byte
  \<^verbatim>\<open>0xFF\<close>: the path exists, \<^verbatim>\<open>json.load\<close> raises \<^verbatim>\<open>UnicodeDecodeError\<close> when it reads the file,
  \<^verbatim>\<open>except json.JSONDecodeError\<close> does not catch it, and \<^verbatim>\<open>_load_json\<close> raises it instead of
  returning the default \<^verbatim>\<open>[]\<close>.
\<close>

theorem load_json_undecodable_counterexample:
  "load_json [CANDIDATES_FP \<mapsto> Raises UnicodeDecodeError] CANDIDATES_FP ([] :: candidate list)
     = Inl UnicodeDecodeError \<and>
   load_json [CANDIDATES_FP \<mapsto> Raises UnicodeDecodeError] CANDIDATES_FP ([] :: candidate list)
     \<noteq> Inr []"
  by (simp add: load_json_def)

text \<open>
  C2, as the program has it. When the candidates file and the jobs file can be read,
  \<open>search_candidates\<close> returns a list of results. Every result is a candidate of the
  collection at its 1-based index with its positive score; the results are in descending
  order of score, and results of equal score are in ascending order of index; when
  \<open>top_n\<close> is not negative there are at most \<open>top_n\<close> results; and when no candidate
  scores above 0 the result is the empty list. When reading one of the two files raises an
  exception, \<open>search_candidates\<close> raises it.
\<close>

theorem search_results_ranked:
  "case load_json (candidate_files st) CANDIDATES_FP [] of
     Inl e \<Rightarrow> search_candidates today st filters top_n = Inl e
   | Inr cands \<Rightarrow>
       (case load_json (job_files st) JOBS_FP [] of
          Inl e \<Rightarrow> search_candidates today st filters top_n = Inl e
        | Inr jobs \<Rightarrow>
            (\<exists>rs. search_candidates today st filters top_n = Inr rs \<and>
               (\<forall>r \<in> set rs.
                   0 < score r \<and> 1 \<le> index r \<and> index r \<le> length cands \<and>
                   cand r = cands ! (index r - 1) \<and>
                   score r = fst (score_candidate today (cand r) (required_skills_of filters jobs)
                               (location filters) (minExp filters) (maxExp filters)
                               (availabilityWindowDays filters))) \<and>
               sorted_wrt (\<lambda>a b. score a > score b \<or> (score a = score b \<and> index a < index b)) rs \<and>
               (0 \<le> top_n \<longrightarrow> length rs \<le> nat top_n) \<and>
               ((\<forall>c \<in> set cands.
                    fst (score_candidate today c (required_skills_of filters jobs)
                          (location filters) (minExp filters) (maxExp filters)
                          (availabilityWindowDays filters)) \<le> 0)
                  \<longrightarrow> rs = [])))"
proof (cases "load_json (candidate_files st) CANDIDATES_FP []")
  case (Inl e)
  then show ?thesis by (simp add: search_candidates_Inl)
next
  case c: (Inr cands)
  show ?thesis
  proof (cases "load_json (job_files st) JOBS_FP []")
    case (Inl e)
    then show ?thesis using c by (simp add: search_candidates_Inl)
  next
    case j: (Inr jobs)
    let ?rs = "py_take top_n (sort_by_score (results_of today cands jobs filters))"
    have s: "search_candidates today st filters top_n = Inr ?rs"
      using c j by (rule search_candidates_alt)
    have p1: "\<forall>r \<in> set ?rs.
                   0 < score r \<and> 1 \<le> index r \<and> index r \<le> length cands \<and>
                   cand r = cands ! (index r - 1) \<and>
                   score r = fst (score_candidate today (cand r) (required_skills_of filters jobs)
                               (location filters) (minExp filters) (maxExp filters)
                               (availabilityWindowDays filters))"
    proof
      fix r assume "r \<in> set ?rs"
      then have r: "r \<in> set (results_of today cands jobs filters)" by (rule in_ranked)
      show "0 < score r \<and> 1 \<le> index r \<and> index r \<le> length cands \<and>
                   cand r = cands ! (index r - 1) \<and>
                   score r = fst (score_candidate today (cand r) (required_skills_of filters jobs)
                               (location filters) (minExp filters) (maxExp filters)
                               (availabilityWindowDays filters))"
        using in_results_of[OF r] by blast
    qed
    have p2: "sorted_wrt (\<lambda>a b. score a > score b \<or> (score a = score b \<and> index a < index b)) ?rs"
      by (rule ranked_ordered)
    have p3: "0 \<le> top_n \<longrightarrow> length ?rs \<le> nat top_n"
      using ranked_length by blast
    have p4: "(\<forall>c \<in> set cands.
                    fst (score_candidate today c (required_skills_of filters jobs)
                          (location filters) (minExp filters) (maxExp filters)
                          (availabilityWindowDays filters)) \<le> 0)
                  \<longrightarrow> ?rs = []"
    proof
      assume "\<forall>c \<in> set cands.
                    fst (score_candidate today c (required_skills_of filters jobs)
                          (location filters) (minExp filters) (maxExp filters)
                          (availabilityWindowDays filters)) \<le> 0"
      then have "results_of today cands jobs filters = []" by (rule results_of_empty)
      then show "?rs = []" by (simp add: sort_by_score_def py_take_def)
    qed
    have "\<exists>rs. search_candidates today st filters top_n = Inr rs \<and>
               (\<forall>r \<in> set rs.
                   0 < score r \<and> 1 \<le> index r \<and> index r \<le> length cands \<and>
                   cand r = cands ! (index r - 1) \<and>
                   score r = fst (score_candidate today (cand r) (required_skills_of filters jobs)
                               (location filters) (minExp filters) (maxExp filters)
                               (availabilityWindowDays filters))) \<and>
               sorted_wrt (\<lambda>a b. score a > score b \<or> (score a = score b \<and> index a < index b)) rs \<and>
               (0 \<le> top_n \<longrightarrow> length rs \<le> nat top_n) \<and>
               ((\<forall>c \<in> set cands.
                    fst (score_candidate today c (required_skills_of filters jobs)
                          (location filters) (minExp filters) (maxExp filters)
                          (availabilityWindowDays filters)) \<le> 0)
                  \<longrightarrow> rs = [])"
      using s p1 p2 p3 p4 by blast
    then show ?thesis by (simp only: c j sum.case)
  qed
qed

text \<open>The properties of C2 on the example data: four candidates, three of which score, two
  of them equally; and a filter that no candidate matches.\<close>

theorem search_results_ranked_witness:
  "search_candidates demo_today demo_store demo_filter 5 = Inr demo_ranked \<and>
   map (\<lambda>r. (index r, score r)) demo_ranked = [(2, 5), (3, 4), (4, 4)] \<and>
   sorted_wrt (\<lambda>a b. score a > score b \<or> (score a = score b \<and> index a < index b)) demo_ranked \<and>
   (0::int) \<le> 5 \<and> length demo_ranked \<le> nat 5 \<and>
   0 < score (hd demo_ranked) \<and>
   search_candidates demo_today demo_store cobol_filter 5 = Inr []"
proof -
  have d: "search_candidates demo_today demo_store demo_filter 5 = Inr demo_ranked"
    by (simp add: demo_search py_take_def demo_ranked_def)
  have t1: "(\<forall>r \<in> set demo_ranked. 0 < score r) \<and>
      sorted_wrt (\<lambda>a b. score a > score b \<or> (score a = score b \<and> index a < index b)) demo_ranked \<and>
      (0 \<le> (5::int) \<longrightarrow> length demo_ranked \<le> nat 5)"
    using search_results_ranked[of demo_today demo_store demo_filter 5]
    by (simp only: demo_load sum.case d sum.inject) blast
  have t2: "search_candidates demo_today demo_store cobol_filter 5 = Inr []"
    using search_results_ranked[of demo_today demo_store cobol_filter 5] demo_none
    by (simp only: demo_load sum.case) blast
  have m: "map (\<lambda>r. (index r, score r)) demo_ranked = [(2, 5), (3, 4), (4, 4)]"
    by (simp add: demo_ranked_def)
  have "hd demo_ranked \<in> set demo_ranked" by (simp add: demo_ranked_def)
  then have p1: "0 < score (hd demo_ranked)" using t1 by blast
  have z: "(0::int) \<le> 5" by simp
  show ?thesis using d m t1 t2 p1 z by blast
qed

text \<open>
  C2 as the specification states it, for every \<open>top_n\<close>, fails for a negative \<open>top_n\<close>:
  the slice \<^verbatim>\<open>results[:-1]\<close> drops the last of three results and returns two, which is more
  than \<open>-1\<close>.
\<close>

theorem search_negative_top_n_counterexample:
  "search_candidates demo_today demo_store demo_filter (- 1) = Inr (butlast demo_ranked) \<and>
   length (butlast demo_ranked) = 2 \<and>
   \<not> int (length (butlast demo_ranked)) \<le> - 1"
  by (simp add: demo_search py_take_def demo_ranked_def)

text \<open>
  C10. The score of a candidate is 0 exactly when the list of reasons is empty.
  Consequently every result that \<open>search_candidates\<close> returns has a non-empty list of
  reasons, and its reason text is the joined reasons followed by the arrow and the score,
  never the bare \<^verbatim>\<open>score N\<close> text.
\<close>

theorem score_zero_iff_no_reasons:
  "(fst (score_candidate today c required_skills loc mn mx availability_days) = 0 \<longleftrightarrow>
    snd (score_candidate today c required_skills loc mn mx availability_days) = []) \<and>
   (\<forall>rs. search_candidates today st filters top_n = Inr rs \<longrightarrow>
      (\<exists>jobs. load_json (job_files st) JOBS_FP [] = Inr jobs \<and>
         (\<forall>r \<in> set rs.
            snd (score_candidate today (cand r) (required_skills_of filters jobs)
                   (location filters) (minExp filters) (maxExp filters)
                   (availabilityWindowDays filters)) \<noteq> [] \<and>
            reason r =
              join (ustr '', '')
                (snd (score_candidate today (cand r) (required_skills_of filters jobs)
                   (location filters) (minExp filters) (maxExp filters)
                   (availabilityWindowDays filters)))
              @ [32, 8594] @ ustr '' score '' @ str_int (score r))))"
proof (intro conjI allI impI)
  show "fst (score_candidate today c required_skills loc mn mx availability_days) = 0 \<longleftrightarrow>
    snd (score_candidate today c required_skills loc mn mx availability_days) = []"
    using score_candidate_inv[of today c required_skills loc mn mx availability_days]
    by (simp add: score_inv_def)
next
  fix rs assume s: "search_candidates today st filters top_n = Inr rs"
  then obtain cands jobs where c: "load_json (candidate_files st) CANDIDATES_FP [] = Inr cands"
    and j: "load_json (job_files st) JOBS_FP [] = Inr jobs"
    by (auto simp: search_candidates_def split: sum.splits)
  have rs: "rs = py_take top_n (sort_by_score (results_of today cands jobs filters))"
    using s search_candidates_alt[OF c j, of today filters top_n] by simp
  have "\<forall>r \<in> set rs.
            snd (score_candidate today (cand r) (required_skills_of filters jobs)
                   (location filters) (minExp filters) (maxExp filters)
                   (availabilityWindowDays filters)) \<noteq> [] \<and>
            reason r =
              join (ustr '', '')
                (snd (score_candidate today (cand r) (required_skills_of filters jobs)
                   (location filters) (minExp filters) (maxExp filters)
                   (availabilityWindowDays filters)))
              @ [32, 8594] @ ustr '' score '' @ str_int (score r)"
  proof
    fix r assume "r \<in> set rs"
    then have r: "r \<in> set (results_of today cands jobs filters)"
      unfolding rs by (rule in_ranked)
    let ?sr = "score_candidate today (cand r) (required_skills_of filters jobs)
               (location filters) (minExp filters) (maxExp filters)
               (availabilityWindowDays filters)"
    have a: "0 < score r" using in_results_of[OF r] by blast
    have b: "score r = fst ?sr" using in_results_of[OF r] by blast
    have pos: "0 < fst ?sr" using a b by linarith
    have "score_inv ?sr" by (rule score_candidate_inv)
    then have ne: "snd ?sr \<noteq> []" using pos by (auto simp: score_inv_def)
    have "reason r = reason_text (score r) (snd ?sr)" using in_results_of[OF r] by blast
    then have "reason r = join (ustr '', '') (snd ?sr) @ [32, 8594] @ ustr '' score '' @ str_int (score r)"
      using ne by (simp add: reason_text_def)
    with ne show "snd ?sr \<noteq> [] \<and>
        reason r = join (ustr '', '') (snd ?sr) @ [32, 8594] @ ustr '' score '' @ str_int (score r)"
      by blast
  qed
  with j show "\<exists>jobs. load_json (job_files st) JOBS_FP [] = Inr jobs \<and>
         (\<forall>r \<in> set rs.
            snd (score_candidate today (cand r) (required_skills_of filters jobs)
                   (location filters) (minExp filters) (maxExp filters)
                   (availabilityWindowDays filters)) \<noteq> [] \<and>
            reason r =
              join (ustr '', '')
                (snd (score_candidate today (cand r) (required_skills_of filters jobs)
                   (location filters) (minExp filters) (maxExp filters)
                   (availabilityWindowDays filters)))
              @ [32, 8594] @ ustr '' score '' @ str_int (score r))"
    by blast
qed

text \<open>C10 on the example data: the first result and its reason text.\<close>

theorem score_zero_iff_no_reasons_witness:
  "search_candidates demo_today demo_store demo_filter 1 = Inr [hd demo_ranked] \<and>
   reason (hd demo_ranked) =
     ustr ''React match (+2), Casablanca (+1), 1y fits ('' @ [177]
       @ ustr ''1) (+1), available in 5d (+1) '' @ [8594] @ ustr '' score 5'' \<and>
   snd (score_candidate demo_today (cand (hd demo_ranked)) (required_skills_of demo_filter [])
          (location demo_filter) (minExp demo_filter) (maxExp demo_filter)
          (availabilityWindowDays demo_filter)) \<noteq> [] \<and>
   reason (hd demo_ranked) =
     join (ustr '', '')
       (snd (score_candidate demo_today (cand (hd demo_ranked)) (required_skills_of demo_filter [])
          (location demo_filter) (minExp demo_filter) (maxExp demo_filter)
          (availabilityWindowDays demo_filter)))
     @ [32, 8594] @ ustr '' score '' @ str_int (score (hd demo_ranked))"
proof -
  have d: "search_candidates demo_today demo_store demo_filter 1 = Inr [hd demo_ranked]"
    by (simp add: demo_search py_take_def demo_ranked_def)
  have "\<exists>jobs. load_json (job_files demo_store) JOBS_FP [] = Inr jobs \<and>
         (\<forall>r \<in> set [hd demo_ranked].
            snd (score_candidate demo_today (cand r) (required_skills_of demo_filter jobs)
                   (location demo_filter) (minExp demo_filter) (maxExp demo_filter)
                   (availabilityWindowDays demo_filter)) \<noteq> [] \<and>
            reason r =
              join (ustr '', '')
                (snd (score_candidate demo_today (cand r) (required_skills_of demo_filter jobs)
                   (location demo_filter) (minExp demo_filter) (maxExp demo_filter)
                   (availabilityWindowDays demo_filter)))
              @ [32, 8594] @ ustr '' score '' @ str_int (score r))"
    using score_zero_iff_no_reasons[of demo_today amina "[]" None None None None demo_store
        demo_filter 1] d
    by blast
  then have "snd (score_candidate demo_today (cand (hd demo_ranked)) (required_skills_of demo_filter [])
          (location demo_filter) (minExp demo_filter) (maxExp demo_filter)
          (availabilityWindowDays demo_filter)) \<noteq> [] \<and>
   reason (hd demo_ranked) =
     join (ustr '', '')
       (snd (score_candidate demo_today (cand (hd demo_ranked)) (required_skills_of demo_filter [])
          (location demo_filter) (minExp demo_filter) (maxExp demo_filter)
          (availabilityWindowDays demo_filter)))
     @ [32, 8594] @ ustr '' score '' @ str_int (score (hd demo_ranked))"
    unfolding demo_load by (simp only: sum.inject list.set ball_simps) blast
  with d demo_reason show ?thesis by blast
qed

text \<open>
  C3, as the program has it. When \<open>parse_query\<close> returns a filter, which it does for every
  text whose runs of digits have at most 4300 digits, its availability window is decided in
  this order: if the text contains \<^verbatim>\<open>this month\<close> the window is 30 and the other two checks
  are skipped; otherwise, if it contains \<^verbatim>\<open>available next month\<close> the window is 45, also
  when an \<^verbatim>\<open>available in N days\<close> phrase is present (of these two checks the later one
  wins); otherwise it is the number of an \<^verbatim>\<open>available in N days\<close> phrase, if there is one,
  and unset if there is none.
\<close>

theorem availability_first_rule_wins:
  "(digit_runs_within max_str_digits text \<longrightarrow> (\<exists>f. parse_query text = Inr f)) \<and>
   (\<forall>f. parse_query text = Inr f \<longrightarrow>
      availabilityWindowDays f =
        (if contains (py_strip (py_lower text)) (ustr ''available this month'') \<or>
            contains (py_strip (py_lower text)) (ustr ''this month'')
         then Some 30
         else if contains (py_strip (py_lower text)) (ustr ''available next month'') then Some 45
         else (case re_search avail_re (py_strip (py_lower text)) of
                 Some m \<Rightarrow> map_option (\<lambda>g. int (digits_value g)) (group (py_strip (py_lower text)) m 1)
               | None \<Rightarrow> None)))"
proof (intro conjI allI impI)
  assume "digit_runs_within max_str_digits text"
  then show "\<exists>f. parse_query text = Inr f" by (rule parse_query_ok)
next
  fix f assume "parse_query text = Inr f"
  then obtain loc mn mx w where f:
    "parse_availability (py_strip (py_lower text)) = Inr w"
    "f = \<lparr>role = parse_role (py_strip (py_lower text)),
          skills = parse_skills (py_strip (py_lower text)),
          location = loc, minExp = mn, maxExp = mx, availabilityWindowDays = w\<rparr>"
    using parse_query_Inr by blast
  show "availabilityWindowDays f =
        (if contains (py_strip (py_lower text)) (ustr ''available this month'') \<or>
            contains (py_strip (py_lower text)) (ustr ''this month'')
         then Some 30
         else if contains (py_strip (py_lower text)) (ustr ''available next month'') then Some 45
         else (case re_search avail_re (py_strip (py_lower text)) of
                 Some m \<Rightarrow> map_option (\<lambda>g. int (digits_value g)) (group (py_strip (py_lower text)) m 1)
               | None \<Rightarrow> None))"
    using parse_availability_Inr[OF f(1)] f(2) by simp
qed

text \<open>C3 on a text with an \<^verbatim>\<open>available in N days\<close> phrase and the \<^verbatim>\<open>available next month\<close>
  phrase: the later check wins.\<close>

theorem availability_first_rule_wins_witness:
  "parse_query (ustr ''Available in 10 days or available next month'') =
     Inr \<lparr>role = None, skills = [], location = None, minExp = None, maxExp = None,
          availabilityWindowDays = Some 45\<rparr> \<and>
   (\<exists>f. parse_query (ustr ''Available in 10 days or available next month'') = Inr f) \<and>
   availabilityWindowDays
     \<lparr>role = None, skills = [], location = None, minExp = None, maxExp = None,
      availabilityWindowDays = Some 45\<rparr> =
     (if contains (py_strip (py_lower (ustr ''Available in 10 days or available next month'')))
           (ustr ''available this month'') \<or>
         contains (py_strip (py_lower (ustr ''Available in 10 days or available next month'')))
           (ustr ''this month'')
      then Some 30
      else if contains (py_strip (py_lower (ustr ''Available in 10 days or available next month'')))
                (ustr ''available next month'') then Some 45
      else (case re_search avail_re
                  (py_strip (py_lower (ustr ''Available in 10 days or available next month''))) of
              Some m \<Rightarrow>
                map_option (\<lambda>g. int (digits_value g))
                  (group (py_strip (py_lower (ustr ''Available in 10 days or available next month''))) m 1)
            | None \<Rightarrow> None))"
proof -
  have e: "parse_query (ustr ''Available in 10 days or available next month'') =
     Inr \<lparr>role = None, skills = [], location = None, minExp = None, maxExp = None,
          availabilityWindowDays = Some 45\<rparr>"
    by (simp add: parse_ev str_ev)
  have b: "digit_runs_within max_str_digits (ustr ''Available in 10 days or available next month'')"
    by (rule digit_runs_short) (simp add: ustr_def max_str_digits_def)
  show ?thesis
    using availability_first_rule_wins[of "ustr ''Available in 10 days or available next month''"] e b
    by blast
qed

text \<open>
  C3 as the specification states it fails on a text with both a \<^verbatim>\<open>this month\<close> phrase and
  the \<^verbatim>\<open>available next month\<close> phrase: the later rule would give 45, and the program
  gives 30.
\<close>

theorem availability_last_rule_counterexample:
  "parse_query (ustr ''Free this month, available next month'') =
     Inr \<lparr>role = None, skills = [], location = None, minExp = None, maxExp = None,
          availabilityWindowDays = Some 30\<rparr> \<and>
   spec_availability (py_strip (py_lower (ustr ''Free this month, available next month''))) = Some 45"
  by (simp add: parse_ev str_ev spec_availability_def)

text \<open>
  C4. When \<open>parse_query\<close> returns a filter, which it does for every text whose runs of
  digits have at most 4300 digits: if the range pattern (two numbers separated by a dash and
  followed by a year unit) matches, \<open>minExp\<close> and \<open>maxExp\<close> are the two numbers of the
  match, whether or not the single-value pattern matches too; otherwise, if the single-value
  pattern matches with the number \<open>v\<close>, \<open>minExp = max 0 (v - 1)\<close> and \<open>maxExp = v\<close>;
  otherwise both are unset. In particular \<^verbatim>\<open>0-2 years\<close> gives 0 and 2, and \<^verbatim>\<open>2 years\<close>
  gives 1 and 2.
\<close>

theorem experience_range_before_single:
  "(digit_runs_within max_str_digits text \<longrightarrow> (\<exists>f. parse_query text = Inr f)) \<and>
   (\<forall>f. parse_query text = Inr f \<longrightarrow>
      (case re_search range_re (py_strip (py_lower text)) of
         Some m \<Rightarrow>
           \<exists>a b. group (py_strip (py_lower text)) m 1 = Some a \<and>
                 group (py_strip (py_lower text)) m 2 = Some b \<and>
                 a \<noteq> [] \<and> list_all is_digit a \<and> b \<noteq> [] \<and> list_all is_digit b \<and>
                 minExp f = Some (int (digits_value a)) \<and> maxExp f = Some (int (digits_value b))
       | None \<Rightarrow>
           (case re_search single_re (py_strip (py_lower text)) of
              Some m \<Rightarrow>
                \<exists>v. group (py_strip (py_lower text)) m 1 = Some v \<and>
                    v \<noteq> [] \<and> list_all is_digit v \<and>
                    minExp f = Some (max 0 (int (digits_value v) - 1)) \<and>
                    maxExp f = Some (int (digits_value v))
            | None \<Rightarrow> minExp f = None \<and> maxExp f = None))) \<and>
   parse_query (ustr ''0-2 years'') =
     Inr \<lparr>role = None, skills = [], location = None, minExp = Some 0, maxExp = Some 2,
          availabilityWindowDays = None\<rparr> \<and>
   parse_query (ustr ''2 years'') =
     Inr \<lparr>role = None, skills = [], location = None, minExp = Some 1, maxExp = Some 2,
          availabilityWindowDays = None\<rparr>"
proof (intro conjI allI impI)
  assume "digit_runs_within max_str_digits text"
  then show "\<exists>f. parse_query text = Inr f" by (rule parse_query_ok)
next
  fix f assume "parse_query text = Inr f"
  then obtain loc mn mx w where f:
    "parse_experience (py_strip (py_lower text)) = Inr (mn, mx)"
    "f = \<lparr>role = parse_role (py_strip (py_lower text)),
          skills = parse_skills (py_strip (py_lower text)),
          location = loc, minExp = mn, maxExp = mx, availabilityWindowDays = w\<rparr>"
    using parse_query_Inr by blast
  show "case re_search range_re (py_strip (py_lower text)) of
         Some m \<Rightarrow>
           \<exists>a b. group (py_strip (py_lower text)) m 1 = Some a \<and>
                 group (py_strip (py_lower text)) m 2 = Some b \<and>
                 a \<noteq> [] \<and> list_all is_digit a \<and> b \<noteq> [] \<and> list_all is_digit b \<and>
                 minExp f = Some (int (digits_value a)) \<and> maxExp f = Some (int (digits_value b))
       | None \<Rightarrow>
           (case re_search single_re (py_strip (py_lower text)) of
              Some m \<Rightarrow>
                \<exists>v. group (py_strip (py_lower text)) m 1 = Some v \<and>
                    v \<noteq> [] \<and> list_all is_digit v \<and>
                    minExp f = Some (max 0 (int (digits_value v) - 1)) \<and>
                    maxExp f = Some (int (digits_value v))
            | None \<Rightarrow> minExp f = None \<and> maxExp f = None)"
  proof (cases "re_search range_re (py_strip (py_lower text))")
    case (Some m)
    from parse_experience_range[OF Some f(1)] f(2) show ?thesis using Some by auto
  next
    case None
    show ?thesis
    proof (cases "re_search single_re (py_strip (py_lower text))")
      case (Some m)
      from parse_experience_single[OF None Some f(1)] f(2) show ?thesis using None Some by auto
    next
      case n: None
      from parse_experience_none[OF None n] f show ?thesis using None n by auto
    qed
  qed
next
  show "parse_query (ustr ''0-2 years'') =
     Inr \<lparr>role = None, skills = [], location = None, minExp = Some 0, maxExp = Some 2,
          availabilityWindowDays = None\<rparr>"
    by (simp add: parse_ev str_ev)
next
  show "parse_query (ustr ''2 years'') =
     Inr \<lparr>role = None, skills = [], location = None, minExp = Some 1, maxExp = Some 2,
          availabilityWindowDays = None\<rparr>"
    by (simp add: parse_ev str_ev)
qed

text \<open>C4 on a text in which both patterns match: the range decides.\<close>

theorem experience_range_before_single_witness:
  "parse_query (ustr ''Backend dev, 3 - 5y'') =
     Inr \<lparr>role = Some (ustr ''backend''), skills = [], location = None, minExp = Some 3,
          maxExp = Some 5, availabilityWindowDays = None\<rparr> \<and>
   (\<exists>f. parse_query (ustr ''Backend dev, 3 - 5y'') = Inr f) \<and>
   re_search single_re (py_strip (py_lower (ustr ''Backend dev, 3 - 5y''))) \<noteq> None \<and>
   (case re_search range_re (py_strip (py_lower (ustr ''Backend dev, 3 - 5y''))) of
      Some m \<Rightarrow>
        \<exists>a b. group (py_strip (py_lower (ustr ''Backend dev, 3 - 5y''))) m 1 = Some a \<and>
              group (py_strip (py_lower (ustr ''Backend dev, 3 - 5y''))) m 2 = Some b \<and>
              Some (3::int) = Some (int (digits_value a)) \<and> Some (5::int) = Some (int (digits_value b))
    | None \<Rightarrow> False)"
proof -
  have e: "parse_query (ustr ''Backend dev, 3 - 5y'') =
     Inr \<lparr>role = Some (ustr ''backend''), skills = [], location = None, minExp = Some 3,
          maxExp = Some 5, availabilityWindowDays = None\<rparr>"
    by (simp add: parse_ev str_ev)
  have b: "digit_runs_within max_str_digits (ustr ''Backend dev, 3 - 5y'')"
    by (rule digit_runs_short) (simp add: ustr_def max_str_digits_def)
  have s: "re_search single_re (py_strip (py_lower (ustr ''Backend dev, 3 - 5y''))) \<noteq> None"
    by (simp add: parse_ev str_ev)
  have r: "re_search range_re (py_strip (py_lower (ustr ''Backend dev, 3 - 5y''))) \<noteq> None"
    by (simp add: parse_ev str_ev)
  show ?thesis
    using experience_range_before_single[of "ustr ''Backend dev, 3 - 5y''"] e b s r
    by (auto split: option.splits)
qed




end
